theory Spec2Isabelle
  imports Main
begin

section \<open>JavaScript values\<close>

text \<open>
  A JavaScript string is a sequence of UTF-16 code units; a code unit is modelled as a
  natural number. \<open>str\<close> turns an ASCII literal into such a sequence.
\<close>

type_synonym jsstring = "nat list"

definition str :: "string \<Rightarrow> jsstring" where
  "str s = map of_char s"

text \<open>
  The values \<open>JSON.parse\<close> produces. A number keeps the text of its literal (the
  double it denotes is only needed for its truthiness and its JSON text, see \<open>num_value\<close>); an object
  is an association list with distinct keys in insertion order.
\<close>

datatype json =
    JNull
  | JBool bool
  | JNum jsstring
  | JStr jsstring
  | JArr "json list"
  | JObj "(jsstring \<times> json) list"

section \<open>Day assignment (App.jsx, lines 104-132)\<close>

text \<open>
  The clock \<open>Date.now()\<close> is an integer number of milliseconds since 1970-01-01T00:00Z
  and is passed explicitly. \<open>toISOString().slice(0, 10)\<close> is the UTC calendar date of
  the clock; UTC days last exactly 86400000 ms, so a calendar date is modelled by its day
  number since 1970-01-01 (two clock readings give the same ten-character string exactly
  when they give the same day number, for the years 0000 to 9999).
\<close>

type_synonym isodate = int

definition todayKey :: "int \<Rightarrow> isodate" where
  "todayKey now = now div 86400000"

text \<open>\<open>new Date("2025-01-01")\<close> is midnight UTC of that day, in milliseconds.\<close>

definition start :: int where
  "start = 1735689600000"

text \<open>\<open>Math.floor\<close> of a quotient of integers is the floor division \<open>div\<close> of HOL.\<close>

definition getDayNumber :: "int \<Rightarrow> int" where
  "getDayNumber now = (now - start) div 86400000 + 1"

record category =
  id_cat :: jsstring
  label :: jsstring
  emoji :: jsstring
  color :: jsstring

definition CATEGORIES :: "category list" where
  "CATEGORIES =
    [\<lparr>id_cat = str ''btc'', label = str ''BTC Fundamentals'', emoji = [8383], color = str ''#f7931a''\<rparr>,
     \<lparr>id_cat = str ''eth'', label = str ''ETH Fundamentals'', emoji = [926], color = str ''#627eea''\<rparr>,
     \<lparr>id_cat = str ''whale'', label = str ''Whale Tracking'', emoji = [55357, 56331], color = str ''#0ea5e9''\<rparr>,
     \<lparr>id_cat = str ''defi'', label = str ''DeFi Analytics'', emoji = [55356, 57318], color = str ''#00c9a7''\<rparr>,
     \<lparr>id_cat = str ''nft'', label = str ''NFT Markets'', emoji = [55357, 56764], color = str ''#a855f7''\<rparr>,
     \<lparr>id_cat = str ''l2'', label = str ''L2 & Mempool'', emoji = [9889], color = str ''#f59e0b''\<rparr>,
     \<lparr>id_cat = str ''macro'', label = str ''Cross-Chain Macro'', emoji = [55356, 57104], color = str ''#ef4444''\<rparr>]"

datatype difficulty = Beginner | Intermediate | Advanced

definition DIFFICULTIES :: "difficulty list" where
  "DIFFICULTIES = [Beginner, Intermediate, Advanced]"

text \<open>
  The remainder operator \<open>%\<close> of JavaScript truncates towards zero: the result has the
  sign of the dividend. (A result \<open>-0\<close> is the index \<open>0\<close> when used as a property key.)
\<close>

definition js_rem :: "int \<Rightarrow> int \<Rightarrow> int" where
  "js_rem a b = sgn a * (\<bar>a\<bar> mod \<bar>b\<bar>)"

text \<open>Reading \<open>xs[i]\<close> outside the array gives \<open>undefined\<close>, modelled by \<open>None\<close>.\<close>

definition js_index :: "'a list \<Rightarrow> int \<Rightarrow> 'a option" where
  "js_index xs i = (if 0 \<le> i \<and> i < int (length xs) then Some (xs ! nat i) else None)"

record meta =
  cat :: "category option"
  diff :: "difficulty option"
  day :: int

definition getTodayMeta :: "int \<Rightarrow> int \<Rightarrow> meta" where
  "getTodayMeta now offsetDays =
    (let day = getDayNumber now + offsetDays;
         cat = js_index CATEGORIES (js_rem day (int (length CATEGORIES)));
         diff = js_index DIFFICULTIES
                  (js_rem (day div int (length CATEGORIES)) (int (length DIFFICULTIES)))
     in \<lparr>cat = cat, diff = diff, day = day\<rparr>)"

text \<open>
  The assignment as the specification words it: the day index from the epoch, the
  category at position \<open>dayIndex mod N\<close> and the difficulty at position
  \<open>floor (dayIndex / N) mod M\<close>, with the mathematical \<open>mod\<close>, whose result is always
  a position of the table.
\<close>

definition assign_spec :: "int \<Rightarrow> int \<Rightarrow> category \<times> difficulty \<times> int" where
  "assign_spec now offsetDays =
    (let dayIndex = (now - start) div 86400000 + offsetDays + 1
     in (CATEGORIES ! nat (dayIndex mod 7), DIFFICULTIES ! nat ((dayIndex div 7) mod 3), dayIndex))"

section \<open>Progress ledger (App.jsx, lines 243-275 and 466-474)\<close>

text \<open>
  The challenge held by the application (line 386): the properties of the parsed
  completion (\<open>...parsed\<close>, the field \<open>generated\<close>), overridden by the display label
  \<open>category\<close>, the assignment \<open>cat\<close>, \<open>diff\<close>, \<open>day\<close> and the cache key, which is
  today's date or \<open>offset_<day number>\<close>.
\<close>

datatype dateKey = DateKey isodate | OffsetKey int

record challenge = meta +
  generated :: "(jsstring \<times> json) list"
  category :: jsstring
  dateKey :: dateKey

text \<open>
  An entry of the history (lines 468-472); its fields carry the prefix \<open>e_\<close>. A
  property the challenge does not have is \<open>undefined\<close>, modelled by \<open>None\<close>.
\<close>

record entry =
  e_date :: isodate
  e_day :: int
  e_title :: "json option"
  e_category :: jsstring
  e_difficulty :: "difficulty option"
  e_analysis :: jsstring

text \<open>
  The part of \<open>localStorage\<close> the ledger uses, one field per key, \<open>None\<close> for a key
  that was never set. The store is the synchronous key/value store the specification
  assumes: reads and writes do not throw. Values are kept as the values their strings
  serialise (\<open>String\<close>/\<open>parseInt\<close> and \<open>JSON.stringify\<close>/\<open>JSON.parse\<close>
  round-trip on them). The stored date \<open>""\<close> of line 247 is \<open>None\<close>: it equals no
  date. \<open>bumpStreak\<close> reads the clock for today and again for yesterday; the model
  takes one reading \<open>now\<close> for both.
\<close>

record ledger =
  od_streak :: "int option"
  od_streak_date :: "isodate option"
  od_history :: "entry list option"

definition loadStreak :: "ledger \<Rightarrow> int \<times> isodate option" where
  "loadStreak s = (case od_streak s of None \<Rightarrow> 0 | Some n \<Rightarrow> n, od_streak_date s)"

definition bumpStreak :: "int \<Rightarrow> ledger \<Rightarrow> int \<times> ledger" where
  "bumpStreak now s =
    (let today = todayKey now;
         (count, last) = loadStreak s;
         yesterday = todayKey (now - 86400000);
         newCount = (if last = Some yesterday then count + 1
                     else if last = Some today then count else 1)
     in (newCount, s\<lparr>od_streak := Some newCount, od_streak_date := Some today\<rparr>))"

definition loadHistory :: "ledger \<Rightarrow> entry list" where
  "loadHistory s = (case od_history s of None \<Rightarrow> [] | Some h \<Rightarrow> h)"

definition pushHistory :: "entry \<Rightarrow> ledger \<Rightarrow> ledger" where
  "pushHistory entry s =
    (let hist = loadHistory s;
         deduped = filter (\<lambda>h. e_date h \<noteq> e_date entry) hist;
         next = take 60 (entry # deduped)
     in s\<lparr>od_history := Some next\<rparr>)"

text \<open>The entry \<open>generateThread\<close> builds; \<open>analysis.slice(0, 120)\<close> keeps 120 code units.\<close>

definition makeEntry :: "int \<Rightarrow> challenge \<Rightarrow> jsstring \<Rightarrow> entry" where
  "makeEntry now c analysis =
    \<lparr>e_date = todayKey now, e_day = day c, e_title = map_of (generated c) (str ''title''),
     e_category = category c, e_difficulty = diff c, e_analysis = take 120 analysis\<rparr>"

text \<open>Lines 466-474 of \<open>generateThread\<close>: bump the streak, then push the entry.\<close>

definition recordCompletion :: "int \<Rightarrow> challenge \<Rightarrow> jsstring \<Rightarrow> ledger \<Rightarrow> int \<times> ledger" where
  "recordCompletion now c analysis s =
    (let (newStreak, s1) = bumpStreak now s
     in (newStreak, pushHistory (makeEntry now c analysis) s1))"

text \<open>A sequence of completions, each with its clock reading, challenge and analysis.\<close>

fun completions :: "(int \<times> challenge \<times> jsstring) list \<Rightarrow> ledger \<Rightarrow> ledger" where
  "completions [] s = s"
| "completions ((now, c, a) # rest) s = completions rest (snd (recordCompletion now c a s))"

section \<open>Strings and regular expressions (the built-ins parseGeminiJSON uses)\<close>

text \<open>
  White space of \<open>\s\<close> and of \<open>trim\<close>: the WhiteSpace and LineTerminator code points
  of ECMAScript.
\<close>

definition js_space :: "nat \<Rightarrow> bool" where
  "js_space c \<longleftrightarrow> c \<in> {9, 10, 11, 12, 13, 32, 160, 5760, 8232, 8233, 8239, 8287, 12288, 65279}
                  \<or> (8192 \<le> c \<and> c \<le> 8202)"

text \<open>The characters \<open>.\<close> does not match.\<close>

definition line_terminator :: "nat \<Rightarrow> bool" where
  "line_terminator c \<longleftrightarrow> c \<in> {10, 13, 8232, 8233}"

definition trim :: "jsstring \<Rightarrow> jsstring" where
  "trim s = rev (dropWhile js_space (rev (dropWhile js_space s)))"

text \<open>
  \<open>s.replace(re, "")\<close> with a global expression that never matches the empty string:
  \<open>m\<close> gives the length of the match of \<open>re\<close> at the start of a string, if any.
\<close>

function gsub_del :: "(jsstring \<Rightarrow> nat option) \<Rightarrow> jsstring \<Rightarrow> jsstring" where
  "gsub_del m [] = []"
| "gsub_del m (c # cs) =
    (case m (c # cs) of
       None \<Rightarrow> c # gsub_del m cs
     | Some n \<Rightarrow> if n = 0 then c # gsub_del m cs else gsub_del m (drop n (c # cs)))"
  by pat_completeness auto
termination
  by (relation "measure (\<lambda>(m, s). length s)") auto

text \<open>\<open>/```json\s*/gi\<close>: three backticks, the letters of json in either case, white space.\<close>

definition match_fence_json :: "jsstring \<Rightarrow> nat option" where
  "match_fence_json s =
    (case s of
       c1 # c2 # c3 # c4 # c5 # c6 # c7 # rest \<Rightarrow>
         if c1 = 96 \<and> c2 = 96 \<and> c3 = 96 \<and> (c4 = 106 \<or> c4 = 74) \<and> (c5 = 115 \<or> c5 = 83)
            \<and> (c6 = 111 \<or> c6 = 79) \<and> (c7 = 110 \<or> c7 = 78)
         then Some (7 + length (takeWhile js_space rest)) else None
     | _ \<Rightarrow> None)"

text \<open>\<open>/```\s*/g\<close>.\<close>

definition match_fence :: "jsstring \<Rightarrow> nat option" where
  "match_fence s =
    (case s of
       c1 # c2 # c3 # rest \<Rightarrow>
         if c1 = 96 \<and> c2 = 96 \<and> c3 = 96 then Some (3 + length (takeWhile js_space rest)) else None
     | _ \<Rightarrow> None)"

text \<open>
  \<open>s.match(/\{[\s\S]*\}/)\<close>: the leftmost match starts at the first opening brace and,
  the star being greedy, ends at the last closing brace after it.
\<close>

definition brace_match :: "jsstring \<Rightarrow> jsstring option" where
  "brace_match s =
    (case dropWhile (\<lambda>c. c \<noteq> 123) s of
       [] \<Rightarrow> None
     | b # rest \<Rightarrow>
         if 125 \<in> set rest then Some (b # rev (dropWhile (\<lambda>c. c \<noteq> 125) (rev rest))) else None)"

definition indexOf :: "nat \<Rightarrow> jsstring \<Rightarrow> int" where
  "indexOf c s = (if c \<in> set s then int (length (takeWhile (\<lambda>x. x \<noteq> c) s)) else - 1)"

definition lastIndexOf :: "nat \<Rightarrow> jsstring \<Rightarrow> int" where
  "lastIndexOf c s =
    (if c \<in> set s then int (length s) - 1 - int (length (takeWhile (\<lambda>x. x \<noteq> c) (rev s))) else - 1)"

text \<open>\<open>s.substring(a, b)\<close>: both indices are clamped to the string and swapped if needed.\<close>

definition substring :: "jsstring \<Rightarrow> int \<Rightarrow> int \<Rightarrow> jsstring" where
  "substring s a b =
    (let n = int (length s);
         a' = max 0 (min a n);
         b' = max 0 (min b n);
         lo = min a' b';
         hi = max a' b'
     in take (nat (hi - lo)) (drop (nat lo) s))"

text \<open>\<open>content.replace(/\n/g, ' ').replace(/\r/g, '')\<close>.\<close>

definition fix_content :: "jsstring \<Rightarrow> jsstring" where
  "fix_content content = filter (\<lambda>c. c \<noteq> 13) (map (\<lambda>c. if c = 10 then 32 else c) content)"

text \<open>
  \<open>s.replace(/"([^"]*?)"/g, f)\<close>: quotes are paired from the left; the text between the
  two quotes of a pair is replaced by \<open>fix_content\<close> of it; a last quote without a
  partner stays.
\<close>

function fix_quotes :: "jsstring \<Rightarrow> jsstring" where
  "fix_quotes [] = []"
| "fix_quotes (c # cs) =
    (if c = 34 then
       (if 34 \<in> set cs
        then 34 # fix_content (takeWhile (\<lambda>x. x \<noteq> 34) cs)
               @ 34 # fix_quotes (tl (dropWhile (\<lambda>x. x \<noteq> 34) cs))
        else c # cs)
     else c # fix_quotes cs)"
  by pat_completeness auto
termination
  by (relation "measure length")
     (auto intro: le_less_trans [OF diff_le_self] le_imp_less_Suc length_dropWhile_le)

text \<open>The leftmost match of an expression: \<open>m\<close> matches at the start of a string.\<close>

fun search :: "(jsstring \<Rightarrow> 'a option) \<Rightarrow> jsstring \<Rightarrow> 'a option" where
  "search m [] = m []"
| "search m (c # cs) = (case m (c # cs) of Some r \<Rightarrow> Some r | None \<Rightarrow> search m cs)"

fun strip_prefix :: "jsstring \<Rightarrow> jsstring \<Rightarrow> jsstring option" where
  "strip_prefix [] s = Some s"
| "strip_prefix (p # ps) [] = None"
| "strip_prefix (p # ps) (c # cs) = (if p = c then strip_prefix ps cs else None)"

text \<open>The text after \<open>"name"\s*:\s*\<close> at the start of a string.\<close>

definition match_key :: "jsstring \<Rightarrow> jsstring \<Rightarrow> jsstring option" where
  "match_key name s =
    (case strip_prefix (34 # name @ [34]) s of
       None \<Rightarrow> None
     | Some r \<Rightarrow>
        (case dropWhile js_space r of
           [] \<Rightarrow> None
         | c # r' \<Rightarrow> if c = 58 then Some (dropWhile js_space r') else None))"

text \<open>\<open>/"name"\s*:\s*"([^"]+)"/\<close> at the start of a string; the result is group 1.\<close>

definition match_string_field :: "jsstring \<Rightarrow> jsstring \<Rightarrow> jsstring option" where
  "match_string_field name s =
    (case match_key name s of
       None \<Rightarrow> None
     | Some [] \<Rightarrow> None
     | Some (q # r) \<Rightarrow>
         if q = 34 \<and> takeWhile (\<lambda>x. x \<noteq> 34) r \<noteq> [] \<and> dropWhile (\<lambda>x. x \<noteq> 34) r \<noteq> []
         then Some (takeWhile (\<lambda>x. x \<noteq> 34) r) else None)"

text \<open>
  \<open>/"name"\s*:\s*\[(.*?)\]/\<close> at the start of a string; the result is group 1: the text
  up to the first closing bracket, which must come before any line terminator.
\<close>

definition match_array_field :: "jsstring \<Rightarrow> jsstring \<Rightarrow> jsstring option" where
  "match_array_field name s =
    (case match_key name s of
       None \<Rightarrow> None
     | Some [] \<Rightarrow> None
     | Some (q # r) \<Rightarrow>
         if q = 91 \<and> dropWhile (\<lambda>x. x \<noteq> 93) r \<noteq> []
            \<and> \<not> list_ex line_terminator (takeWhile (\<lambda>x. x \<noteq> 93) r)
         then Some (takeWhile (\<lambda>x. x \<noteq> 93) r) else None)"

section \<open>JSON.parse\<close>

text \<open>
  \<open>JSON.parse\<close> follows the JSON grammar (ECMA-404): first the text is cut into tokens,
  then the tokens are read with a stack of the arrays and objects that are still open.
  \<open>None\<close> is a \<open>SyntaxError\<close>.
\<close>

datatype token =
  TLBrace | TRBrace | TLBrack | TRBrack | TColon | TComma
  | TStr jsstring | TNum jsstring | TTrue | TFalse | TNull

definition json_ws :: "nat \<Rightarrow> bool" where
  "json_ws c \<longleftrightarrow> c = 9 \<or> c = 10 \<or> c = 13 \<or> c = 32"

definition digit :: "nat \<Rightarrow> bool" where
  "digit c \<longleftrightarrow> 48 \<le> c \<and> c \<le> 57"

definition num_char :: "nat \<Rightarrow> bool" where
  "num_char c \<longleftrightarrow> digit c \<or> c = 45 \<or> c = 43 \<or> c = 46 \<or> c = 101 \<or> c = 69"

definition lower :: "nat \<Rightarrow> bool" where
  "lower c \<longleftrightarrow> 97 \<le> c \<and> c \<le> 122"

text \<open>The exponent part of a number: empty, or e or E, an optional sign, digits.\<close>

definition valid_exp :: "jsstring \<Rightarrow> bool" where
  "valid_exp r =
    (case r of
       [] \<Rightarrow> True
     | e # r' \<Rightarrow>
         (e = 101 \<or> e = 69) \<and>
         (let ds = (case r' of [] \<Rightarrow> [] | x # t \<Rightarrow> if x = 43 \<or> x = 45 then t else r')
          in ds \<noteq> [] \<and> list_all digit ds))"

text \<open>The fraction part: empty, or a point and digits; then the exponent part.\<close>

definition valid_frac :: "jsstring \<Rightarrow> bool" where
  "valid_frac r =
    (case r of
       [] \<Rightarrow> True
     | p # r' \<Rightarrow>
         if p = 46 then takeWhile digit r' \<noteq> [] \<and> valid_exp (dropWhile digit r')
         else valid_exp r)"

text \<open>A number: an optional minus, then 0 or a digit 1-9 followed by digits.\<close>

definition valid_number :: "jsstring \<Rightarrow> bool" where
  "valid_number s =
    (case (case s of [] \<Rightarrow> [] | x # t \<Rightarrow> if x = 45 then t else s) of
       [] \<Rightarrow> False
     | d # r \<Rightarrow>
         if d = 48 then valid_frac r
         else if digit d then valid_frac (dropWhile digit r)
         else False)"

datatype mode =
    Default
  | InStr jsstring
  | InEsc jsstring
  | InUni jsstring "nat list"
  | InNum jsstring
  | InLit jsstring

text \<open>
  The first character of a token: white space is skipped, a punctuation character is a
  token, a quote opens a string, a minus or a digit starts a number, a letter a literal.
\<close>

definition begin_token :: "nat \<Rightarrow> (token option \<times> mode) option" where
  "begin_token c =
    (if json_ws c then Some (None, Default)
     else if c = 123 then Some (Some TLBrace, Default)
     else if c = 125 then Some (Some TRBrace, Default)
     else if c = 91 then Some (Some TLBrack, Default)
     else if c = 93 then Some (Some TRBrack, Default)
     else if c = 58 then Some (Some TColon, Default)
     else if c = 44 then Some (Some TComma, Default)
     else if c = 34 then Some (None, InStr [])
     else if c = 45 \<or> digit c then Some (None, InNum [c])
     else if lower c then Some (None, InLit [c])
     else None)"

definition emit :: "token option \<Rightarrow> token list option \<Rightarrow> token list option" where
  "emit t r = (case t of None \<Rightarrow> r | Some x \<Rightarrow> map_option (Cons x) r)"

definition literal :: "jsstring \<Rightarrow> token option" where
  "literal acc =
    (if acc = [116, 114, 117, 101] then Some TTrue
     else if acc = [102, 97, 108, 115, 101] then Some TFalse
     else if acc = [110, 117, 108, 108] then Some TNull
     else None)"

definition escape :: "nat \<Rightarrow> nat option" where
  "escape c =
    (if c = 34 \<or> c = 92 \<or> c = 47 then Some c
     else if c = 98 then Some 8
     else if c = 102 then Some 12
     else if c = 110 then Some 10
     else if c = 114 then Some 13
     else if c = 116 then Some 9
     else None)"

definition hex :: "nat \<Rightarrow> nat option" where
  "hex c =
    (if digit c then Some (c - 48)
     else if 97 \<le> c \<and> c \<le> 102 then Some (c - 87)
     else if 65 \<le> c \<and> c \<le> 70 then Some (c - 55)
     else None)"

fun scan :: "mode \<Rightarrow> jsstring \<Rightarrow> token list option" where
  "scan Default [] = Some []"
| "scan (InStr acc) [] = None"
| "scan (InEsc acc) [] = None"
| "scan (InUni acc ds) [] = None"
| "scan (InNum acc) [] = (if valid_number acc then Some [TNum acc] else None)"
| "scan (InLit acc) [] = map_option (\<lambda>t. [t]) (literal acc)"
| "scan Default (c # cs) =
    (case begin_token c of None \<Rightarrow> None | Some (t, m) \<Rightarrow> emit t (scan m cs))"
| "scan (InStr acc) (c # cs) =
    (if c = 34 then emit (Some (TStr acc)) (scan Default cs)
     else if c = 92 then scan (InEsc acc) cs
     else if c < 32 then None
     else scan (InStr (acc @ [c])) cs)"
| "scan (InEsc acc) (c # cs) =
    (if c = 117 then scan (InUni acc []) cs
     else (case escape c of None \<Rightarrow> None | Some x \<Rightarrow> scan (InStr (acc @ [x])) cs))"
| "scan (InUni acc ds) (c # cs) =
    (case hex c of
       None \<Rightarrow> None
     | Some d \<Rightarrow>
         if length ds = 3 then scan (InStr (acc @ [foldl (\<lambda>v x. 16 * v + x) 0 (ds @ [d])])) cs
         else scan (InUni acc (ds @ [d])) cs)"
| "scan (InNum acc) (c # cs) =
    (if num_char c then scan (InNum (acc @ [c])) cs
     else if valid_number acc then
       (case begin_token c of
          None \<Rightarrow> None
        | Some (t, m) \<Rightarrow> emit (Some (TNum acc)) (emit t (scan m cs)))
     else None)"
| "scan (InLit acc) (c # cs) =
    (if lower c then scan (InLit (acc @ [c])) cs
     else (case literal acc of
             None \<Rightarrow> None
           | Some l \<Rightarrow>
              (case begin_token c of
                 None \<Rightarrow> None
               | Some (t, m) \<Rightarrow> emit (Some l) (emit t (scan m cs)))))"

text \<open>
  Storing a member: a key that is already there keeps its place and takes the new value,
  as a repeated key does in \<open>JSON.parse\<close>.
\<close>

fun obj_put :: "jsstring \<Rightarrow> json \<Rightarrow> (jsstring \<times> json) list \<Rightarrow> (jsstring \<times> json) list" where
  "obj_put k v [] = [(k, v)]"
| "obj_put k v ((k', v') # kvs) = (if k = k' then (k, v) # kvs else (k', v') # obj_put k v kvs)"

text \<open>An open array with its elements, or an open object with its members and the key read last.\<close>

datatype frame = FArr "json list" | FObj "(jsstring \<times> json) list" jsstring

datatype expect = ExpValue | ExpValueOrEnd | ExpKeyOrEnd | ExpKey | ExpColon | ExpSep

definition push_value :: "json \<Rightarrow> frame \<Rightarrow> frame" where
  "push_value v f = (case f of FArr vs \<Rightarrow> FArr (vs @ [v]) | FObj kvs k \<Rightarrow> FObj (obj_put k v kvs) k)"

text \<open>A complete value is the result when nothing is open, else it goes into the open frame.\<close>

definition deliver :: "json \<Rightarrow> frame list \<Rightarrow> json + expect \<times> frame list" where
  "deliver v st = (case st of [] \<Rightarrow> Inl v | f # st' \<Rightarrow> Inr (ExpSep, push_value v f # st'))"

definition value_token :: "token \<Rightarrow> frame list \<Rightarrow> (json + expect \<times> frame list) option" where
  "value_token t st =
    (case t of
       TLBrace \<Rightarrow> Some (Inr (ExpKeyOrEnd, FObj [] [] # st))
     | TLBrack \<Rightarrow> Some (Inr (ExpValueOrEnd, FArr [] # st))
     | TStr s \<Rightarrow> Some (deliver (JStr s) st)
     | TNum n \<Rightarrow> Some (deliver (JNum n) st)
     | TTrue \<Rightarrow> Some (deliver (JBool True) st)
     | TFalse \<Rightarrow> Some (deliver (JBool False) st)
     | TNull \<Rightarrow> Some (deliver JNull st)
     | _ \<Rightarrow> None)"

definition key_token :: "token \<Rightarrow> frame list \<Rightarrow> (json + expect \<times> frame list) option" where
  "key_token t st =
    (case (t, st) of
       (TStr k, FObj kvs _ # st') \<Rightarrow> Some (Inr (ExpColon, FObj kvs k # st'))
     | _ \<Rightarrow> None)"

definition close_array :: "frame list \<Rightarrow> (json + expect \<times> frame list) option" where
  "close_array st = (case st of FArr vs # st' \<Rightarrow> Some (deliver (JArr vs) st') | _ \<Rightarrow> None)"

definition close_object :: "frame list \<Rightarrow> (json + expect \<times> frame list) option" where
  "close_object st = (case st of FObj kvs _ # st' \<Rightarrow> Some (deliver (JObj kvs) st') | _ \<Rightarrow> None)"

text \<open>One token: \<open>None\<close> is a syntax error, \<open>Inl v\<close> the complete document.\<close>

definition step :: "expect \<Rightarrow> frame list \<Rightarrow> token \<Rightarrow> (json + expect \<times> frame list) option" where
  "step e st t =
    (case e of
       ExpValue \<Rightarrow> value_token t st
     | ExpValueOrEnd \<Rightarrow> if t = TRBrack then close_array st else value_token t st
     | ExpKeyOrEnd \<Rightarrow> if t = TRBrace then close_object st else key_token t st
     | ExpKey \<Rightarrow> key_token t st
     | ExpColon \<Rightarrow> if t = TColon then Some (Inr (ExpValue, st)) else None
     | ExpSep \<Rightarrow>
        (case st of
           [] \<Rightarrow> None
         | FArr _ # _ \<Rightarrow>
             if t = TComma then Some (Inr (ExpValue, st))
             else if t = TRBrack then close_array st else None
         | FObj _ _ # _ \<Rightarrow>
             if t = TComma then Some (Inr (ExpKey, st))
             else if t = TRBrace then close_object st else None))"

fun run :: "expect \<Rightarrow> frame list \<Rightarrow> token list \<Rightarrow> json option" where
  "run e st [] = None"
| "run e st (t # ts) =
    (case step e st t of
       None \<Rightarrow> None
     | Some (Inl v) \<Rightarrow> if ts = [] then Some v else None
     | Some (Inr (e', st')) \<Rightarrow> run e' st' ts)"

definition json_parse :: "jsstring \<Rightarrow> json option" where
  "json_parse s = (case scan Default s of None \<Rightarrow> None | Some ts \<Rightarrow> run ExpValue [] ts)"

section \<open>Response recovery: parseGeminiJSON (App.jsx, lines 33-99)\<close>

text \<open>
  A thrown error with its message. The message of the \<open>SyntaxError\<close> that
  \<open>JSON.parse\<close> throws is chosen by the JavaScript engine: it is a parameter \<open>msg\<close>
  of the model, a function of the text that did not parse. The messages of the
  \<open>TypeError\<close>s below are those of V8. Writing to the console has no effect on the
  result and is left out.
\<close>

datatype js_error = Error jsstring | TypeError jsstring

fun message :: "js_error \<Rightarrow> jsstring" where
  "message (Error m) = m"
| "message (TypeError m) = m"

text \<open>Lines 35-41: the text handed to the first \<open>JSON.parse\<close>.\<close>

definition strip_fences :: "jsstring \<Rightarrow> jsstring" where
  "strip_fences raw = trim (gsub_del match_fence (gsub_del match_fence_json raw))"

definition tier1_text :: "jsstring \<Rightarrow> jsstring" where
  "tier1_text raw =
    (let cleaned = strip_fences raw
     in case brace_match cleaned of Some jsonMatch \<Rightarrow> jsonMatch | None \<Rightarrow> cleaned)"

text \<open>Lines 52-64: the text handed to the second \<open>JSON.parse\<close>.\<close>

definition tier2_text :: "jsstring \<Rightarrow> jsstring" where
  "tier2_text cleaned =
    (let startIdx = indexOf 123 cleaned;
         endIdx = lastIndexOf 125 cleaned;
         cleaned' = (if startIdx \<noteq> - 1 \<and> endIdx \<noteq> - 1
                     then substring cleaned startIdx (endIdx + 1) else cleaned)
     in fix_quotes cleaned')"

text \<open>Lines 74-79: the six matches, on the text of the second attempt.\<close>

definition titleMatch :: "jsstring \<Rightarrow> jsstring option" where
  "titleMatch cleaned = search (match_string_field (str ''title'')) cleaned"

definition problemMatch :: "jsstring \<Rightarrow> jsstring option" where
  "problemMatch cleaned = search (match_string_field (str ''problem'')) cleaned"

definition hintsMatch :: "jsstring \<Rightarrow> jsstring option" where
  "hintsMatch cleaned = search (match_array_field (str ''hints'')) cleaned"

definition metricsMatch :: "jsstring \<Rightarrow> jsstring option" where
  "metricsMatch cleaned = search (match_array_field (str ''keyMetrics'')) cleaned"

definition toolsMatch :: "jsstring \<Rightarrow> jsstring option" where
  "toolsMatch cleaned = search (match_array_field (str ''tools'')) cleaned"

definition teachingMatch :: "jsstring \<Rightarrow> jsstring option" where
  "teachingMatch cleaned = search (match_string_field (str ''teachingPoint'')) cleaned"

text \<open>Line 81: all six expressions match.\<close>

definition six_fields_found :: "jsstring \<Rightarrow> bool" where
  "six_fields_found cleaned \<longleftrightarrow>
     titleMatch cleaned \<noteq> None \<and> problemMatch cleaned \<noteq> None \<and> hintsMatch cleaned \<noteq> None \<and>
     metricsMatch cleaned \<noteq> None \<and> toolsMatch cleaned \<noteq> None \<and> teachingMatch cleaned \<noteq> None"

text \<open>\<open>JSON.parse(`[${m[1]}]`)\<close>.\<close>

definition parse_list :: "jsstring option \<Rightarrow> json option" where
  "parse_list m = (case m of None \<Rightarrow> None | Some body \<Rightarrow> json_parse (91 # body @ [93]))"

text \<open>
  Lines 72-93: the third attempt. A \<open>SyntaxError\<close> of one of the three
  \<open>JSON.parse\<close> calls is caught (line 91), and nothing is returned.
\<close>

definition tier3 :: "jsstring \<Rightarrow> json option" where
  "tier3 cleaned =
    (if six_fields_found cleaned then
       (case parse_list (hintsMatch cleaned) of
          None \<Rightarrow> None
        | Some hints \<Rightarrow>
           (case parse_list (metricsMatch cleaned) of
              None \<Rightarrow> None
            | Some keyMetrics \<Rightarrow>
               (case parse_list (toolsMatch cleaned) of
                  None \<Rightarrow> None
                | Some tools \<Rightarrow>
                    Some (JObj [(str ''title'', JStr (the (titleMatch cleaned))),
                                (str ''problem'', JStr (the (problemMatch cleaned))),
                                (str ''hints'', hints),
                                (str ''keyMetrics'', keyMetrics),
                                (str ''tools'', tools),
                                (str ''teachingPoint'', JStr (the (teachingMatch cleaned)))]))))
     else None)"

definition parseGeminiJSON :: "(jsstring \<Rightarrow> jsstring) \<Rightarrow> jsstring \<Rightarrow> js_error + json" where
  "parseGeminiJSON msg raw =
    (let cleaned = tier1_text raw
     in case json_parse cleaned of
          Some v \<Rightarrow> Inr v
        | None \<Rightarrow>
           (let cleaned2 = tier2_text cleaned
            in case json_parse cleaned2 of
                 Some v \<Rightarrow> Inr v
               | None \<Rightarrow>
                  (case tier3 cleaned2 of
                     Some v \<Rightarrow> Inr v
                   | None \<Rightarrow>
                       Inl (Error (str ''Failed to parse JSON: '' @ msg cleaned
                                   @ str ''. Check console for details.'')))))"

text \<open>
  A sample of the engine's messages, for the examples: the two messages V8 starts with.
\<close>

definition sample_msg :: "jsstring \<Rightarrow> jsstring" where
  "sample_msg s = (if list_all json_ws s then str ''Unexpected end of JSON input''
                   else str ''Unexpected token'')"

section \<open>Completion client: callGemini (App.jsx, lines 6-30)\<close>

text \<open>
  The double a number literal denotes, as far as the program depends on it. A literal
  has the exact decimal value \<open>m * 10^e\<close> (\<open>num_value\<close> gives \<open>m\<close> and \<open>e\<close>, without
  the sign). It denotes zero when its digits are all zero, or when its value is at most
  \<open>2^-1075\<close> and rounds to zero; it denotes \<open>Infinity\<close> when its value is at least
  \<open>2^1024 - 2^970\<close> and rounds beyond the largest double.
\<close>

definition digits_val :: "jsstring \<Rightarrow> int" where
  "digits_val ds = foldl (\<lambda>v c. 10 * v + int (c - 48)) 0 ds"

definition num_value :: "jsstring \<Rightarrow> int \<times> int" where
  "num_value s =
    (let u = (case s of [] \<Rightarrow> [] | x # t \<Rightarrow> if x = 45 then t else s);
         ip = takeWhile digit u;
         r1 = dropWhile digit u;
         fp = (case r1 of [] \<Rightarrow> [] | p # t \<Rightarrow> if p = 46 then takeWhile digit t else []);
         r2 = (case r1 of [] \<Rightarrow> [] | p # t \<Rightarrow> if p = 46 then dropWhile digit t else r1);
         ex = (case r2 of
                 [] \<Rightarrow> 0
               | e # t \<Rightarrow>
                  (case t of
                     [] \<Rightarrow> 0
                   | x # t' \<Rightarrow>
                       if x = 45 then - digits_val t'
                       else if x = 43 then digits_val t'
                       else digits_val t))
     in (digits_val (ip @ fp), ex - int (length fp)))"

definition num_is_zero :: "jsstring \<Rightarrow> bool" where
  "num_is_zero s =
    (case num_value s of
       (m, e10) \<Rightarrow> m = 0 \<or> (e10 < 0 \<and> m * 2 ^ 1075 \<le> 10 ^ nat (- e10)))"

definition num_overflows :: "jsstring \<Rightarrow> bool" where
  "num_overflows s =
    (case num_value s of
       (m, e10) \<Rightarrow>
         if 0 \<le> e10 then 2 ^ 1024 - 2 ^ 970 \<le> m * 10 ^ nat e10
         else (2 ^ 1024 - 2 ^ 970) * 10 ^ nat (- e10) \<le> m)"

text \<open>Truthiness of a parsed value.\<close>

fun truthy :: "json \<Rightarrow> bool" where
  "truthy JNull = False"
| "truthy (JBool b) = b"
| "truthy (JNum n) = (\<not> num_is_zero n)"
| "truthy (JStr s) = (s \<noteq> [])"
| "truthy (JArr vs) = True"
| "truthy (JObj kvs) = True"

text \<open>
  Reading a named property, and the element 0, of a value that is not \<open>null\<close>;
  \<open>None\<close> is \<open>undefined\<close>. The names read in this program are own properties of
  objects only.
\<close>

definition js_get :: "jsstring \<Rightarrow> json \<Rightarrow> json option" where
  "js_get name v = (case v of JObj kvs \<Rightarrow> map_of kvs name | _ \<Rightarrow> None)"

definition js_first :: "json \<Rightarrow> json option" where
  "js_first v =
    (case v of
       JArr vs \<Rightarrow> (case vs of [] \<Rightarrow> None | x # _ \<Rightarrow> Some x)
     | JStr s \<Rightarrow> (case s of [] \<Rightarrow> None | c # _ \<Rightarrow> Some (JStr [c]))
     | JObj kvs \<Rightarrow> map_of kvs (str ''0'')
     | _ \<Rightarrow> None)"

text \<open>Optional chaining \<open>x?.f\<close>: \<open>undefined\<close> when \<open>x\<close> is \<open>undefined\<close> or \<open>null\<close>.\<close>

definition chain :: "json option \<Rightarrow> (json \<Rightarrow> json option) \<Rightarrow> json option" where
  "chain x f = (case x of None \<Rightarrow> None | Some v \<Rightarrow> if v = JNull then None else f v)"

text \<open>
  Lines 28-29: \<open>data.candidates?.[0]?.content?.parts?.[0]?.text || ""\<close>, where \<open>data\<close>
  is the parsed body of the response.
\<close>

definition response_text :: "json \<Rightarrow> js_error + json" where
  "response_text data =
    (if data = JNull
     then Inl (TypeError (str ''Cannot read properties of null (reading 'candidates')''))
     else
       (let text = chain (chain (chain (chain (chain (js_get (str ''candidates'') data)
                     js_first) (js_get (str ''content''))) (js_get (str ''parts'')))
                     js_first) (js_get (str ''text''))
        in Inr (case text of None \<Rightarrow> JStr [] | Some v \<Rightarrow> if truthy v then v else JStr [])))"

text \<open>
  The request (lines 7-27) is the environment: it throws (no connection, a status that is
  not ok, a body that is not JSON) or gives the parsed body.
\<close>

definition callGemini :: "js_error + json \<Rightarrow> js_error + json" where
  "callGemini outcome = (case outcome of Inl e \<Rightarrow> Inl e | Inr data \<Rightarrow> response_text data)"

section \<open>Generation orchestrator: loadOrGenerateChallenge (App.jsx, lines 352-402)\<close>

text \<open>
  The prompt is kept as the values its text is built from. Reading \<open>cat.label\<close> of an
  \<open>undefined\<close> category throws.
\<close>

datatype prompt = ChallengePrompt category "difficulty option" int isodate

definition buildChallengePrompt ::
  "int \<Rightarrow> category option \<Rightarrow> difficulty option \<Rightarrow> int \<Rightarrow> js_error + prompt" where
  "buildChallengePrompt now cat' diff' day' =
    (case cat' of
       None \<Rightarrow> Inl (TypeError (str ''Cannot read properties of undefined (reading 'label')''))
     | Some c \<Rightarrow> Inr (ChallengePrompt c diff' day' (todayKey now)))"

text \<open>
  The text-generation service: the outcome of the request number \<open>n\<close> (counted from 0)
  made with a credential and a prompt.
\<close>

type_synonym service = "nat \<Rightarrow> jsstring \<Rightarrow> prompt \<Rightarrow> js_error + json"

text \<open>
  The state: the three React state variables the function sets, the challenge cache of
  \<open>localStorage\<close> (one entry per key \<open>od_challenge_<dateKey>\<close>, kept as the record
  \<open>JSON.parse\<close> reads from its JSON text), and two counters that observe the run: the requests made to the
  service and the cache writes.
\<close>

record state =
  challenge :: "challenge option"
  generating :: bool
  genError :: jsstring
  cache :: "dateKey \<Rightarrow> challenge option"
  calls :: nat
  writes :: nat

definition loadChallenge :: "dateKey \<Rightarrow> state \<Rightarrow> challenge option" where
  "loadChallenge dateKey' s = cache s dateKey'"

text \<open>
  The value \<open>JSON.parse\<close> reads back from \<open>JSON.stringify\<close> of a parsed value:
  \<open>Infinity\<close> is written \<open>null\<close> and a zero is written \<open>0\<close>; every other number
  is written so that it reads back as the same double (the model keeps its literal),
  and strings, arrays and objects keep their contents.
\<close>

fun reparsed :: "json \<Rightarrow> json" where
  "reparsed JNull = JNull"
| "reparsed (JBool b) = JBool b"
| "reparsed (JNum n) =
    (if num_overflows n then JNull else if num_is_zero n then JNum [48] else JNum n)"
| "reparsed (JStr s) = JStr s"
| "reparsed (JArr vs) = JArr (map reparsed vs)"
| "reparsed (JObj kvs) = JObj (map (\<lambda>kv. (fst kv, reparsed (snd kv))) kvs)"

text \<open>
  The record read back from \<open>JSON.stringify(data)\<close> (line 232): the properties of the
  completion are written and read as above; the label, the category, the day number and
  the key are kept; an \<open>undefined\<close> difficulty is not written and reads as
  \<open>undefined\<close>.
\<close>

definition persisted :: "challenge \<Rightarrow> challenge" where
  "persisted data = data\<lparr>generated := map (\<lambda>kv. (fst kv, reparsed (snd kv))) (generated data)\<rparr>"

definition saveChallenge :: "dateKey \<Rightarrow> challenge \<Rightarrow> state \<Rightarrow> state" where
  "saveChallenge dateKey' data s =
    s\<lparr>cache := (cache s)(dateKey' \<mapsto> persisted data), writes := writes s + 1\<rparr>"

text \<open>\<open>!parsed.name\<close> is false: the property is there and truthy.\<close>

definition has_field :: "json \<Rightarrow> jsstring \<Rightarrow> bool" where
  "has_field parsed name = (case js_get name parsed of None \<Rightarrow> False | Some v \<Rightarrow> truthy v)"

text \<open>Line 382: the condition under which line 383 does not throw.\<close>

definition required_fields :: "json \<Rightarrow> bool" where
  "required_fields parsed \<longleftrightarrow>
     has_field parsed (str ''title'') \<and> has_field parsed (str ''problem'') \<and>
     has_field parsed (str ''hints'') \<and> has_field parsed (str ''keyMetrics'') \<and>
     has_field parsed (str ''tools'') \<and> has_field parsed (str ''teachingPoint'')"

text \<open>
  Lines 379-386 for a completion text: parse, validate, assemble. Reading a property of
  \<open>null\<close> throws a \<open>TypeError\<close>.
\<close>

definition assemble ::
  "(jsstring \<Rightarrow> jsstring) \<Rightarrow> category \<Rightarrow> meta \<Rightarrow> dateKey \<Rightarrow> jsstring \<Rightarrow> js_error + challenge" where
  "assemble msg c m dateKey' raw =
    (case parseGeminiJSON msg raw of
       Inl e \<Rightarrow> Inl e
     | Inr parsed \<Rightarrow>
         if parsed = JNull
         then Inl (TypeError (str ''Cannot read properties of null (reading 'title')''))
         else if \<not> required_fields parsed
         then Inl (Error (str ''Invalid challenge format - missing required fields''))
         else Inr \<lparr>cat = cat m, diff = diff m, day = day m,
                   generated = (case parsed of JObj kvs \<Rightarrow> kvs | _ \<Rightarrow> []),
                   category = label c, dateKey = dateKey'\<rparr>)"

text \<open>
  Lines 376-386, the body of \<open>try\<close> up to the assembled challenge, as the request
  number \<open>n\<close>: the result, and whether the service was called.
\<close>

definition generate ::
  "(jsstring \<Rightarrow> jsstring) \<Rightarrow> service \<Rightarrow> int \<Rightarrow> jsstring \<Rightarrow> meta \<Rightarrow> dateKey \<Rightarrow> nat
     \<Rightarrow> (js_error + challenge) \<times> nat" where
  "generate msg svc now key m dateKey' n =
    (case buildChallengePrompt now (cat m) (diff m) (day m) of
       Inl e \<Rightarrow> (Inl e, n)
     | Inr p \<Rightarrow>
        (case callGemini (svc n key p) of
           Inl e \<Rightarrow> (Inl e, n + 1)
         | Inr raw \<Rightarrow>
            (case raw of
               JStr text \<Rightarrow> (assemble msg (the (cat m)) m dateKey' text, n + 1)
             | _ \<Rightarrow> (Inl (TypeError (str ''raw.substring is not a function'')), n + 1))))"

text \<open>
  Lines 369-401: the loop, from the attempt \<open>attempt\<close> on. A success returns at once
  (line 389); after the loop \<open>generating\<close> is reset (line 401). The pause before a
  retry (line 373) takes time only.
\<close>

function retry ::
  "(jsstring \<Rightarrow> jsstring) \<Rightarrow> service \<Rightarrow> int \<Rightarrow> jsstring \<Rightarrow> meta \<Rightarrow> dateKey \<Rightarrow> nat \<Rightarrow> state \<Rightarrow> state" where
  "retry msg svc now key m dateKey' attempt s =
    (if attempt \<le> 3 then
       (case generate msg svc now key m dateKey' (calls s) of
          (Inr full, n) \<Rightarrow> (saveChallenge dateKey' full (s\<lparr>calls := n\<rparr>))\<lparr>challenge := Some full\<rparr>
        | (Inl e, n) \<Rightarrow>
            retry msg svc now key m dateKey' (attempt + 1)
              (if attempt = 3
               then s\<lparr>calls := n,
                      genError := str ''Failed after 3 attempts: '' @ message e
                        @ str ''. Try clicking RETRY or check your API key.''\<rparr>
               else s\<lparr>calls := n\<rparr>))
     else s\<lparr>generating := False\<rparr>)"
  by pat_completeness auto
termination
  by (relation "measure (\<lambda>(msg, svc, now, key, m, dateKey', attempt, s). 4 - attempt)") auto

declare retry.simps [simp del]

text \<open>
  Line 354: the cache key, today's date for the offset 0 and \<open>offset_<day number>\<close>
  for another offset. The two forms never give the same string.
\<close>

definition challengeKey :: "int \<Rightarrow> int \<Rightarrow> dateKey" where
  "challengeKey now offset =
    (if offset = 0 then DateKey (todayKey now) else OffsetKey (getDayNumber now + offset))"

definition loadOrGenerateChallenge ::
  "(jsstring \<Rightarrow> jsstring) \<Rightarrow> service \<Rightarrow> int \<Rightarrow> int \<Rightarrow> jsstring \<Rightarrow> state \<Rightarrow> state" where
  "loadOrGenerateChallenge msg svc now offset key s =
    (let m = getTodayMeta now offset;
         dateKey' = challengeKey now offset
     in case loadChallenge dateKey' s of
          Some cached \<Rightarrow> s\<lparr>challenge := Some (cached\<lparr>cat := cat m, diff := diff m, day := day m\<rparr>)\<rparr>
        | None \<Rightarrow>
            retry msg svc now key m dateKey' 1
              (s\<lparr>generating := True, genError := [], challenge := None\<rparr>))"

text \<open>
  The outcome of a run that misses the cache, in words of the specification: the state
  after a success with the challenge \<open>full\<close> (one cache write, of the record as it is
  read back from its JSON text), the state after three
  failures, the last with the error \<open>e\<close> (no cache write), and the first success among
  three attempts, where \<open>g n\<close> is the attempt made as request number \<open>n\<close>.
\<close>

definition succeeded :: "state \<Rightarrow> dateKey \<Rightarrow> challenge \<Rightarrow> nat \<Rightarrow> state" where
  "succeeded s dateKey' full n =
    s\<lparr>challenge := Some full, generating := True, genError := [],
      cache := (cache s)(dateKey' \<mapsto> persisted full), calls := n, writes := writes s + 1\<rparr>"

definition failed :: "state \<Rightarrow> js_error \<Rightarrow> nat \<Rightarrow> state" where
  "failed s e n =
    s\<lparr>challenge := None, generating := False,
      genError := str ''Failed after 3 attempts: '' @ message e
        @ str ''. Try clicking RETRY or check your API key.'',
      calls := n\<rparr>"

definition three_attempts ::
  "(nat \<Rightarrow> (js_error + challenge) \<times> nat) \<Rightarrow> state \<Rightarrow> dateKey \<Rightarrow> state" where
  "three_attempts g s dateKey' =
    (case g (calls s) of
       (Inr full, n1) \<Rightarrow> succeeded s dateKey' full n1
     | (Inl e1, n1) \<Rightarrow>
        (case g n1 of
           (Inr full, n2) \<Rightarrow> succeeded s dateKey' full n2
         | (Inl e2, n2) \<Rightarrow>
            (case g n2 of
               (Inr full, n3) \<Rightarrow> succeeded s dateKey' full n3
             | (Inl e3, n3) \<Rightarrow> failed s e3 n3)))"

text \<open>
  A sample service: the first request fails with a status, the second response has no
  candidates, the third carries a complete challenge.
\<close>

definition good_text :: jsstring where
  \<open>good_text = str ''{"title":"T","problem":"P","hints":["h"],"keyMetrics":["m"],"tools":["t"],"teachingPoint":"E"}''\<close>

definition good_body :: json where
  "good_body = JObj [(str ''candidates'',
     JArr [JObj [(str ''content'', JObj [(str ''parts'', JArr [JObj [(str ''text'', JStr good_text)]])])]])]"


definition failing_service :: service where
  "failing_service n key p = (if n = 2 then Inr (JObj []) else Inl (Error (str ''Gemini API error 503'')))"

definition empty_state :: state where
  "empty_state = \<lparr>challenge = None, generating = False, genError = [], cache = Map.empty,
                   calls = 0, writes = 0\<rparr>"



text \<open>A sample run: 61 completions on 61 consecutive days, starting from an empty store.\<close>

definition c0 :: challenge where
  "c0 = \<lparr>cat = None, diff = Some Beginner, day = 1, generated = [], category = [], dateKey = OffsetKey 1\<rparr>"

definition sixty_one_days :: "(int \<times> challenge \<times> jsstring) list" where
  "sixty_one_days = map (\<lambda>i. (int i * 86400000, c0, [])) [0..<61]"

text \<open>Sample completion texts.\<close>

definition raw_bad_list :: jsstring where
  \<open>raw_bad_list = str ''"title": "T", "problem": "P", "hints": [x], "keyMetrics": [], "tools": ["x"], "teachingPoint": "E"''\<close>

definition raw_fields :: jsstring where
  \<open>raw_fields = str ''"title": "T", "problem": "P", "hints": ["a", "b"], "keyMetrics": [], "tools": ["x"], "teachingPoint": "E"''\<close>

definition raw_numbers :: jsstring where
  \<open>raw_numbers = str ''{"title":1,"problem":1,"hints":1,"keyMetrics":1,"tools":1,"teachingPoint":1}''\<close>

definition raw_title_only :: jsstring where
  \<open>raw_title_only = str ''{"title":"T"}''\<close>

text \<open>The challenge assembled from \<open>good_text\<close> on 2026-11-03.\<close>

definition good_challenge :: challenge where
  "good_challenge =
    \<lparr>cat = Some (CATEGORIES ! 0), diff = Some Beginner, day = 672,
     generated = [(str ''title'', JStr (str ''T'')), (str ''problem'', JStr (str ''P'')),
                  (str ''hints'', JArr [JStr (str ''h'')]), (str ''keyMetrics'', JArr [JStr (str ''m'')]),
                  (str ''tools'', JArr [JStr (str ''t'')]), (str ''teachingPoint'', JStr (str ''E''))],
     category = str ''BTC Fundamentals'', dateKey = DateKey 20760\<rparr>"






text \<open>A service whose every completion is the complete challenge.\<close>

definition good_service :: service where
  "good_service n key p = Inr good_body"

text \<open>A well-formed document with three backticks inside a string.\<close>

definition raw_backticks :: jsstring where
  \<open>raw_backticks = str ''{"title":"a```b"}''\<close>
section \<open>Notions used in the proofs\<close>

text \<open>A text holds a fence marker: three backticks in a row.\<close>

fun has_fence :: "jsstring \<Rightarrow> bool" where
  "has_fence [] = False"
| "has_fence (c # cs) = (take 3 (c # cs) = [96, 96, 96] \<or> has_fence cs)"

text \<open>The outermost open frame of the parser is an array.\<close>

definition bottom_array :: "frame list \<Rightarrow> bool" where
  "bottom_array st \<longleftrightarrow> st \<noteq> [] \<and> (\<exists>vs. last st = FArr vs)"

text \<open>A document between white space.\<close>

definition raw_padded :: jsstring where
  \<open>raw_padded = [32, 10] @ str ''{"title": "T", "n": [1, 2]}'' @ [10]\<close>

section \<open>Properties of the day assignment\<close>

lemma getDayNumber_same_day:
  "now1 div 86400000 = now2 div 86400000 \<Longrightarrow> getDayNumber now1 = getDayNumber now2"
proof -
  assume h: "now1 div 86400000 = now2 div 86400000"
  have e: "start = 20089 * 86400000" by (simp add: start_def)
  have "\<And>n::int. (n - 20089 * 86400000) div 86400000 = n div 86400000 - 20089"
    by simp
  then show ?thesis using h by (simp add: getDayNumber_def e)
qed

lemma getTodayMeta_deterministic:
  "now1 div 86400000 = now2 div 86400000 \<Longrightarrow> getTodayMeta now1 off = getTodayMeta now2 off"
  using getDayNumber_same_day [of now1 now2] by (simp add: getTodayMeta_def)

lemma getTodayMeta_day:
  "day (getTodayMeta now off) = (now - start) div 86400000 + off + 1"
  by (simp add: getTodayMeta_def getDayNumber_def Let_def)

lemma js_rem_nonneg: "0 \<le> a \<Longrightarrow> js_rem a 7 = a mod 7" "0 \<le> a \<Longrightarrow> js_rem a 3 = a mod 3"
  by (cases "a = 0"; simp add: js_rem_def)+

lemma getTodayMeta_assign_spec_nonneg:
  assumes "0 \<le> getDayNumber now + off"
  shows "getTodayMeta now off =
    \<lparr>cat = Some (fst (assign_spec now off)), diff = Some (fst (snd (assign_spec now off))),
     day = snd (snd (assign_spec now off))\<rparr>"
proof -
  let ?d = "getDayNumber now + off"
  have d: "?d = (now - start) div 86400000 + off + 1" by (simp add: getDayNumber_def)
  have q: "0 \<le> ?d div 7" using assms by simp
  have lc: "length CATEGORIES = 7" by (simp add: CATEGORIES_def)
  have ld: "length DIFFICULTIES = 3" by (simp add: DIFFICULTIES_def)
  have c: "js_index CATEGORIES (js_rem ?d 7) = Some (CATEGORIES ! nat (?d mod 7))"
    using assms by (simp add: js_index_def js_rem_nonneg lc)
  have f: "js_index DIFFICULTIES (js_rem (?d div 7) 3) = Some (DIFFICULTIES ! nat ((?d div 7) mod 3))"
    using q by (simp add: js_index_def js_rem_nonneg ld)
  show ?thesis
    using c f by (simp add: getTodayMeta_def assign_spec_def Let_def lc ld d)
qed

text \<open>
  Claim C9 (the assignment is total: every integer offset, also one that makes the day
  index negative, gives a well-defined category, difficulty and day index) does not hold
  of the code. On 2026-11-03 the day number is 672; the offset -673 gives the day index
  -1, for which \<open>day % 7\<close> is -1 and \<open>Math.floor(day / 7) % 3\<close> is -1: both
  table reads are \<open>undefined\<close>.
\<close>

theorem getTodayMeta_negative_day_undefined:
  "getTodayMeta 1793707200000 (- 673) = \<lparr>cat = None, diff = None, day = - 1\<rparr>"
  by (simp add: getTodayMeta_def getDayNumber_def start_def js_index_def js_rem_def Let_def
      CATEGORIES_def DIFFICULTIES_def)

text \<open>
  Claim C6 (for every integer offset the category is \<open>categories[dayIndex mod 7]\<close> and the
  difficulty \<open>difficulties[floor(dayIndex / 7) mod 3]\<close>) does not hold of the code at a
  negative day index: for the day index -3 the specification's assignment is the fifth
  category and the difficulty Advanced, and the code returns neither. For a day index
  that is not negative the two agree (\<open>getTodayMeta_assign_spec_nonneg\<close>), the day
  index is the one of the claim (\<open>getTodayMeta_day\<close>), and two clock readings of the
  same day give the same triple (\<open>getTodayMeta_deterministic\<close>).
\<close>

theorem getTodayMeta_differs_from_assign_spec:
  "getTodayMeta 1793707200000 (- 675) = \<lparr>cat = None, diff = None, day = - 3\<rparr> \<and>
   assign_spec 1793707200000 (- 675) = (CATEGORIES ! 4, Advanced, - 3)"
  by (simp add: getTodayMeta_def getDayNumber_def start_def js_index_def js_rem_def Let_def
      assign_spec_def CATEGORIES_def DIFFICULTIES_def)

section \<open>Properties of the progress ledger\<close>

lemma yesterday_is_previous_day: "todayKey (now - 86400000) = todayKey now - 1"
  by (simp add: todayKey_def)

text \<open>
  Claim C4: with \<open>count\<close> and \<open>last\<close> the stored streak and date, \<open>bumpStreak\<close>
  returns \<open>count + 1\<close> when \<open>last\<close> is the calendar date before today, \<open>count\<close>
  when \<open>last\<close> is today, and 1 otherwise; it stores the new count with today's date,
  and leaves the history alone. The date the code computes from the clock of one day
  earlier is the calendar date before today (\<open>yesterday_is_previous_day\<close>).
\<close>

theorem bumpStreak_rule:
  "fst (bumpStreak now s) =
     (if snd (loadStreak s) = Some (todayKey now - 1) then fst (loadStreak s) + 1
      else if snd (loadStreak s) = Some (todayKey now) then fst (loadStreak s)
      else 1) \<and>
   loadStreak (snd (bumpStreak now s)) = (fst (bumpStreak now s), Some (todayKey now)) \<and>
   od_history (snd (bumpStreak now s)) = od_history s"
  by (simp add: bumpStreak_def yesterday_is_previous_day Let_def loadStreak_def split: prod.splits)

lemma bumpStreak_scenarios:
  "loadStreak s = (n, Some (todayKey now - 1)) \<Longrightarrow> fst (bumpStreak now s) = n + 1"
  "loadStreak s = (n, Some (todayKey now)) \<Longrightarrow> fst (bumpStreak now s) = n"
  "loadStreak s = (n, Some (todayKey now - 2)) \<Longrightarrow> fst (bumpStreak now s) = 1"
  "loadStreak s = (n, None) \<Longrightarrow> fst (bumpStreak now s) = 1"
  by (simp_all add: bumpStreak_def yesterday_is_previous_day Let_def)

lemma loadHistory_pushHistory:
  "loadHistory (pushHistory e s) = take 60 (e # filter (\<lambda>h. e_date h \<noteq> e_date e) (loadHistory s))"
  by (simp add: pushHistory_def loadHistory_def Let_def)

lemma loadHistory_bumpStreak: "loadHistory (snd (bumpStreak now s)) = loadHistory s"
  by (simp add: bumpStreak_def loadHistory_def Let_def split: prod.splits)

lemma loadHistory_recordCompletion:
  "loadHistory (snd (recordCompletion now c a s)) =
     take 60 (makeEntry now c a # filter (\<lambda>h. e_date h \<noteq> todayKey now) (loadHistory s))"
proof -
  have "e_date (makeEntry now c a) = todayKey now" by (simp add: makeEntry_def)
  then show ?thesis
    using loadHistory_bumpStreak [of now s]
    by (cases "bumpStreak now s") (simp add: recordCompletion_def loadHistory_pushHistory)
qed

lemma take_append_take: "take n (xs @ take n ys) = take n (xs @ ys)"
  by (induction xs arbitrary: n) (auto simp: take_Cons split: nat.splits)

lemma completions_history_gen:
  "distinct (map (\<lambda>x. todayKey (fst x)) cs) \<Longrightarrow>
   (\<forall>h \<in> set (loadHistory s). \<forall>x \<in> set cs. e_date h \<noteq> todayKey (fst x)) \<Longrightarrow>
   length (loadHistory s) \<le> 60 \<Longrightarrow>
   loadHistory (completions cs s) =
     take 60 (rev (map (\<lambda>(now, c, a). makeEntry now c a) cs) @ loadHistory s)"
proof (induction cs arbitrary: s)
  case Nil
  then show ?case by simp
next
  case (Cons x cs)
  obtain now c a where x: "x = (now, c, a)" by (cases x) auto
  let ?s1 = "snd (recordCompletion now c a s)"
  have nodate: "filter (\<lambda>h. e_date h \<noteq> todayKey now) (loadHistory s) = loadHistory s"
    using Cons.prems(2) x by (auto simp: filter_id_conv)
  have h1: "loadHistory ?s1 = take 60 (makeEntry now c a # loadHistory s)"
    by (simp add: loadHistory_recordCompletion nodate)
  have d: "distinct (map (\<lambda>x. todayKey (fst x)) cs)" using Cons.prems(1) by simp
  have fresh: "\<forall>h \<in> set (loadHistory ?s1). \<forall>y \<in> set cs. e_date h \<noteq> todayKey (fst y)"
  proof (intro ballI)
    fix h y assume h: "h \<in> set (loadHistory ?s1)" and y: "y \<in> set cs"
    from h have "h \<in> set (makeEntry now c a # loadHistory s)"
      unfolding h1 by (rule in_set_takeD)
    then consider "h = makeEntry now c a" | "h \<in> set (loadHistory s)" by auto
    then show "e_date h \<noteq> todayKey (fst y)"
    proof cases
      case 1
      then have "e_date h = todayKey now" by (simp add: makeEntry_def)
      moreover have "todayKey now \<notin> (\<lambda>x. todayKey (fst x)) ` set cs"
        using Cons.prems(1) x by simp
      ultimately show ?thesis using y by auto
    next
      case 2
      then show ?thesis using Cons.prems(2) y by simp
    qed
  qed
  have "loadHistory (completions (x # cs) s) = loadHistory (completions cs ?s1)"
    by (simp add: x)
  also have "\<dots> = take 60 (rev (map (\<lambda>(now, c, a). makeEntry now c a) cs) @ loadHistory ?s1)"
    by (rule Cons.IH [OF d fresh]) (simp add: h1)
  also have "\<dots> = take 60 (rev (map (\<lambda>(now, c, a). makeEntry now c a) cs) @ (makeEntry now c a # loadHistory s))"
    unfolding h1 by (rule take_append_take)
  finally show ?case by (simp add: x)
qed


text \<open>
  Claim C5: \<open>pushHistory\<close> puts the new entry in front of the stored entries of other
  dates and keeps the first 60; the new entry is the head and the only entry of its
  date, so completing a date again replaces its entry; the entry holds the date, the
  day index, title, category, difficulty and the first 120 code units of the analysis;
  and completions on pairwise distinct dates, from an empty history, leave the 60 most
  recent entries, the most recent first.
\<close>

theorem pushHistory_history:
  "loadHistory (pushHistory e s) =
     take 60 (e # filter (\<lambda>h. e_date h \<noteq> e_date e) (loadHistory s)) \<and>
   hd (loadHistory (pushHistory e s)) = e \<and>
   filter (\<lambda>h. e_date h = e_date e) (loadHistory (pushHistory e s)) = [e] \<and>
   length (loadHistory (pushHistory e s)) \<le> 60 \<and>
   makeEntry now c a =
     \<lparr>e_date = todayKey now, e_day = day c, e_title = map_of (generated c) (str ''title''),
      e_category = category c, e_difficulty = diff c, e_analysis = take 120 a\<rparr> \<and>
   (distinct (map (\<lambda>x. todayKey (fst x)) cs) \<and> loadHistory s0 = [] \<longrightarrow>
      loadHistory (completions cs s0) = take 60 (rev (map (\<lambda>(now, c, a). makeEntry now c a) cs)))"
proof -
  let ?ys = "filter (\<lambda>h. e_date h \<noteq> e_date e) (loadHistory s)"
  have "filter (\<lambda>h. e_date h = e_date e) (take 59 ?ys) = []"
    by (auto simp: filter_empty_conv dest: in_set_takeD)
  then have one: "filter (\<lambda>h. e_date h = e_date e) (loadHistory (pushHistory e s)) = [e]"
    by (simp add: loadHistory_pushHistory)
  have seq: "distinct (map (\<lambda>x. todayKey (fst x)) cs) \<and> loadHistory s0 = [] \<longrightarrow>
      loadHistory (completions cs s0) = take 60 (rev (map (\<lambda>(now, c, a). makeEntry now c a) cs))"
    using completions_history_gen [of cs s0] by auto
  show ?thesis
    using one seq by (simp add: loadHistory_pushHistory makeEntry_def)
qed

text \<open>
  The 61 completions of \<open>sixty_one_days\<close> (days 0 to 60) leave the entries of the days
  60 down to 1.
\<close>

theorem pushHistory_history_witness:
  "distinct (map (\<lambda>x. todayKey (fst x)) sixty_one_days) \<and>
   loadHistory \<lparr>od_streak = None, od_streak_date = None, od_history = None\<rparr> = [] \<and>
   map e_date (loadHistory (completions sixty_one_days
       \<lparr>od_streak = None, od_streak_date = None, od_history = None\<rparr>)) = map int (rev [1..<61])"
proof -
  let ?s0 = "\<lparr>od_streak = None, od_streak_date = None, od_history = None\<rparr>"
  have m: "map (\<lambda>x. todayKey (fst x)) sixty_one_days = map int [0..<61]"
    by (simp add: sixty_one_days_def todayKey_def comp_def)
  have d: "distinct (map (\<lambda>x. todayKey (fst x)) sixty_one_days)"
    unfolding m by (simp add: distinct_map)
  have e: "loadHistory ?s0 = []" by (simp add: loadHistory_def)
  have me: "map e_date (map (\<lambda>(now, c, a). makeEntry now c a) sixty_one_days) = map int [0..<61]"
    by (simp add: sixty_one_days_def todayKey_def comp_def makeEntry_def)
  have a: "map e_date (take 60 (rev X)) = take 60 (rev (map e_date X))" for X :: "entry list"
    by (simp add: take_map rev_map)
  have "loadHistory (completions sixty_one_days ?s0) =
          take 60 (rev (map (\<lambda>(now, c, a). makeEntry now c a) sixty_one_days))"
    using pushHistory_history [of "makeEntry 0 c0 []" ?s0 0 c0 "[]" sixty_one_days ?s0] d e by blast
  then have "map e_date (loadHistory (completions sixty_one_days ?s0)) =
          map e_date (take 60 (rev (map (\<lambda>(now, c, a). makeEntry now c a) sixty_one_days)))"
    by (rule arg_cong)
  also have "\<dots> = take 60 (rev (map int [0..<61]))"
    by (simp only: a me)
  also have "\<dots> = map int (rev [1..<61])"
    by code_simp
  finally show ?thesis using d e by simp
qed

section \<open>Properties of JSON.parse and of the first attempt\<close>

lemma match_fence_None: "take 3 s \<noteq> [96, 96, 96] \<Longrightarrow> match_fence s = None"
  by (auto simp: match_fence_def split: list.splits)

lemma match_fence_json_None: "take 3 s \<noteq> [96, 96, 96] \<Longrightarrow> match_fence_json s = None"
  by (auto simp: match_fence_json_def split: list.splits)

lemma gsub_del_no_fence:
  "\<not> has_fence s \<Longrightarrow> gsub_del match_fence s = s \<and> gsub_del match_fence_json s = s"
  by (induction s) (simp_all add: match_fence_None match_fence_json_None)

lemma json_ws_js_space: "json_ws c \<Longrightarrow> js_space c"
  by (auto simp: json_ws_def js_space_def)

lemma begin_token_ws: "json_ws c \<Longrightarrow> begin_token c = Some (None, Default)"
  by (simp add: begin_token_def)

lemma scan_ws_prefix: "list_all json_ws w \<Longrightarrow> scan Default (w @ s) = scan Default s"
  by (induction w) (simp_all add: begin_token_ws emit_def)

lemma ws_facts:
  assumes "json_ws c"
  shows "c \<noteq> 34 \<and> c \<noteq> 92 \<and> c \<noteq> 117 \<and> \<not> num_char c \<and> \<not> lower c \<and> hex c = None
     \<and> escape c = None \<and> (c < 32 \<or> c = 32)"
proof -
  from assms consider "c = 9" | "c = 10" | "c = 13" | "c = 32"
    by (auto simp: json_ws_def)
  then show ?thesis
    by cases (simp_all add: num_char_def digit_def lower_def hex_def escape_def)
qed

lemma scan_InStr_ws: "list_all json_ws w \<Longrightarrow> scan (InStr acc) w = None"
  by (induction w arbitrary: acc) (use ws_facts in \<open>auto\<close>)

lemma scan_Default_ws: "list_all json_ws w \<Longrightarrow> scan Default w = Some []"
  by (induction w) (simp_all add: begin_token_ws emit_def)

lemma scan_ws_only: "list_all json_ws w \<Longrightarrow> scan m w = scan m []"
proof (cases w)
  case Nil
  then show ?thesis by simp
next
  case (Cons c w')
  assume "list_all json_ws w"
  then have c: "json_ws c" and w': "list_all json_ws w'" using Cons by simp_all
  note f = ws_facts [OF c]
  show ?thesis
  proof (cases m)
    case Default
    then show ?thesis using Cons c w' by (simp add: begin_token_ws emit_def scan_Default_ws)
  next
    case (InStr acc)
    then show ?thesis using Cons f w' scan_InStr_ws [OF w'] by auto
  next
    case (InEsc acc)
    then show ?thesis using Cons f by simp
  next
    case (InUni acc ds)
    then show ?thesis using Cons f by simp
  next
    case (InNum acc)
    then show ?thesis using Cons f c w' by (simp add: begin_token_ws emit_def scan_Default_ws)
  next
    case (InLit acc)
    then show ?thesis using Cons f c w'
      by (simp add: begin_token_ws emit_def scan_Default_ws split: option.splits)
  qed
qed

lemma scan_ws_suffix: "list_all json_ws w \<Longrightarrow> scan m (s @ w) = scan m s"
proof (induction s arbitrary: m)
  case Nil
  then show ?case using scan_ws_only [of w m] by simp
next
  case (Cons c s)
  have IH: "\<And>m. scan m (s @ w) = scan m s" using Cons by simp
  show ?case by (cases m; simp only: append_Cons scan.simps IH)
qed

lemma json_parse_ws:
  "list_all json_ws w1 \<Longrightarrow> list_all json_ws w2 \<Longrightarrow> json_parse (w1 @ s @ w2) = json_parse s"
  by (simp add: json_parse_def scan_ws_prefix scan_ws_suffix)


lemma emit_simps [simp]:
  "emit None r = r"
  "emit (Some x) r = Some ts \<longleftrightarrow> (\<exists>ts'. r = Some ts' \<and> ts = x # ts')"
  "emit (Some x) None = None"
  by (auto simp: emit_def)

lemma begin_token_cases:
  assumes "begin_token c = Some (t, m)"
  shows "(t = None \<and> m = Default \<and> json_ws c) \<or>
         (\<exists>x. t = Some x \<and> m = Default \<and> (x = TLBrace \<longleftrightarrow> c = 123) \<and> (x = TRBrace \<longleftrightarrow> c = 125)) \<or>
         (t = None \<and> m \<noteq> Default)"
  using assms by (auto simp: begin_token_def split: if_splits)

lemma literal_not_brace: "literal acc = Some l \<Longrightarrow> l \<noteq> TLBrace \<and> l \<noteq> TRBrace"
  by (auto simp: literal_def split: if_splits)

lemma scan_InNum_Cons:
  "\<not> num_char c \<Longrightarrow> scan (InNum acc) (c # s) =
     (if valid_number acc then emit (Some (TNum acc)) (scan Default (c # s)) else None)"
  by (simp add: emit_def split: option.splits)

lemma scan_InLit_Cons:
  "\<not> lower c \<Longrightarrow> scan (InLit acc) (c # s) =
     (case literal acc of None \<Rightarrow> None | Some l \<Rightarrow> emit (Some l) (scan Default (c # s)))"
  by (simp add: emit_def split: option.splits)

text \<open>Inside a token, the next token is not a brace.\<close>

lemma scan_inside_token:
  "scan m s = Some ts \<Longrightarrow> m \<noteq> Default \<Longrightarrow> ts \<noteq> [] \<and> hd ts \<noteq> TLBrace"
proof (induction s arbitrary: m ts)
  case Nil
  then show ?case by (cases m) (auto split: if_splits dest: literal_not_brace)
next
  case (Cons c s)
  show ?case
  proof (cases m)
    case Default
    then show ?thesis using Cons.prems by simp
  next
    case (InStr acc)
    then show ?thesis using Cons.prems Cons.IH [of "InEsc acc"] Cons.IH [of "InStr (acc @ [c])"]
      by (auto split: if_splits)
  next
    case (InEsc acc)
    then show ?thesis using Cons.prems Cons.IH [of "InUni acc []"] Cons.IH [of "InStr _"]
      by (auto split: if_splits option.splits)
  next
    case (InUni acc ds)
    then show ?thesis using Cons.prems Cons.IH [of "InUni acc _"] Cons.IH [of "InStr _"]
      by (auto split: if_splits option.splits)
  next
    case (InNum acc)
    show ?thesis
    proof (cases "num_char c")
      case True
      then show ?thesis using InNum Cons.prems Cons.IH [of "InNum (acc @ [c])"] by simp
    next
      case False
      then show ?thesis using InNum Cons.prems
        by (auto simp: scan_InNum_Cons simp del: scan.simps split: if_splits)
    qed
  next
    case (InLit acc)
    show ?thesis
    proof (cases "lower c")
      case True
      then show ?thesis using InLit Cons.prems Cons.IH [of "InLit (acc @ [c])"] by simp
    next
      case False
      then show ?thesis using InLit Cons.prems
        by (auto simp: scan_InLit_Cons simp del: scan.simps split: option.splits
            dest: literal_not_brace)
    qed
  qed
qed

lemma scan_no_tokens: "scan m s = Some [] \<Longrightarrow> m = Default \<and> list_all json_ws s"
proof (induction s arbitrary: m)
  case Nil
  then show ?case using scan_inside_token [of m "[]" "[]"] by auto
next
  case (Cons c s)
  have m: "m = Default" using Cons.prems scan_inside_token [of m "c # s" "[]"] by auto
  then obtain t m' where b: "begin_token c = Some (t, m')" and e: "emit t (scan m' s) = Some []"
    using Cons.prems by (auto split: option.splits)
  from e have t: "t = None" and s: "scan m' s = Some []" by (cases t; simp)+
  from Cons.IH [OF s] begin_token_cases [OF b] t m show ?case by auto
qed

lemma scan_first_brace:
  "scan Default s = Some (TLBrace # ts) \<Longrightarrow>
     \<exists>w1 rest. s = w1 @ 123 # rest \<and> list_all json_ws w1 \<and> scan Default rest = Some ts"
proof (induction s)
  case Nil
  then show ?case by simp
next
  case (Cons c s)
  then obtain t m' where b: "begin_token c = Some (t, m')"
    and e: "emit t (scan m' s) = Some (TLBrace # ts)"
    by (auto split: option.splits)
  from begin_token_cases [OF b] consider
      (ws) "t = None" "m' = Default" "json_ws c"
    | (tok) x where "t = Some x" "m' = Default" "x = TLBrace \<longleftrightarrow> c = 123"
    | (inside) "t = None" "m' \<noteq> Default"
    by blast
  then show ?case
  proof cases
    case ws
    with e Cons.IH obtain w1 rest where
      "s = w1 @ 123 # rest" "list_all json_ws w1" "scan Default rest = Some ts" by auto
    then have "c # s = (c # w1) @ 123 # rest \<and> list_all json_ws (c # w1) \<and> scan Default rest = Some ts"
      using ws by simp
    then show ?thesis by blast
  next
    case tok
    with e have "c = 123" "scan Default s = Some ts" by auto
    then have "c # s = [] @ 123 # s \<and> list_all json_ws [] \<and> scan Default s = Some ts" by simp
    then show ?thesis by blast
  next
    case inside
    with e scan_inside_token [of m' s "TLBrace # ts"] show ?thesis by auto
  qed
qed


text \<open>A token list that ends with a closing brace comes from a text that ends with one.\<close>

lemma scan_last_brace:
  "scan m s = Some ts \<Longrightarrow> ts \<noteq> [] \<Longrightarrow> last ts = TRBrace \<Longrightarrow>
     \<exists>pre w2. s = pre @ 125 # w2 \<and> list_all json_ws w2"
proof (induction s arbitrary: m ts)
  case Nil
  then show ?case by (cases m) (auto split: if_splits dest: literal_not_brace)
next
  case (Cons c s)
  have step: "\<exists>pre w2. c # s = pre @ 125 # w2 \<and> list_all json_ws w2"
    if "\<exists>pre w2. s = pre @ 125 # w2 \<and> list_all json_ws w2"
  proof -
    from that obtain pre w2 where "s = pre @ 125 # w2" "list_all json_ws w2" by blast
    then have "c # s = (c # pre) @ 125 # w2 \<and> list_all json_ws w2" by simp
    then show ?thesis by blast
  qed
  have dflt: "\<exists>pre w2. c # s = pre @ 125 # w2 \<and> list_all json_ws w2"
    if h: "scan Default (c # s) = Some us" "us \<noteq> []" "last us = TRBrace" for us
  proof -
    from h obtain t m' where b: "begin_token c = Some (t, m')"
      and e: "emit t (scan m' s) = Some us"
      by (auto split: option.splits)
    show ?thesis
    proof (cases t)
      case None
      with e have "scan m' s = Some us" by simp
      from Cons.IH [OF this h(2) h(3)] show ?thesis by (rule step)
    next
      case (Some x)
      with e obtain us' where u: "scan m' s = Some us'" "us = x # us'" by auto
      show ?thesis
      proof (cases "us' = []")
        case True
        with u h have "x = TRBrace" by simp
        with begin_token_cases [OF b] Some have "c = 125" by auto
        moreover from u True scan_no_tokens have "list_all json_ws s" by blast
        ultimately have "c # s = [] @ 125 # s \<and> list_all json_ws s" by simp
        then show ?thesis by blast
      next
        case False
        with u h have "last us' = TRBrace" by simp
        from Cons.IH [OF u(1) False this] show ?thesis by (rule step)
      qed
    qed
  qed
  show ?case
  proof (cases m)
    case Default
    then show ?thesis using Cons.prems dflt by blast
  next
    case (InStr acc)
    show ?thesis
    proof (cases "c = 34")
      case True
      with InStr Cons.prems obtain ts' where u: "scan Default s = Some ts'" "ts = TStr acc # ts'"
        by auto
      with Cons.prems have "ts' \<noteq> []" "last ts' = TRBrace" by (auto split: if_splits)
      from Cons.IH [OF u(1) this] show ?thesis by (rule step)
    next
      case False
      with InStr Cons.prems have "scan (InEsc acc) s = Some ts \<or> scan (InStr (acc @ [c])) s = Some ts"
        by (auto split: if_splits)
      then show ?thesis using Cons.IH Cons.prems(2,3) step by blast
    qed
  next
    case (InEsc acc)
    with Cons.prems have "\<exists>m'. scan m' s = Some ts"
      by (auto split: if_splits option.splits)
    then show ?thesis using Cons.IH Cons.prems(2,3) step by blast
  next
    case (InUni acc ds)
    with Cons.prems have "\<exists>m'. scan m' s = Some ts"
      by (auto split: if_splits option.splits)
    then show ?thesis using Cons.IH Cons.prems(2,3) step by blast
  next
    case (InNum acc)
    show ?thesis
    proof (cases "num_char c")
      case True
      with InNum Cons.prems have "scan (InNum (acc @ [c])) s = Some ts" by simp
      then show ?thesis using Cons.IH Cons.prems(2,3) step by blast
    next
      case False
      with InNum Cons.prems obtain us where u: "scan Default (c # s) = Some us" "ts = TNum acc # us"
        by (auto simp: scan_InNum_Cons simp del: scan.simps split: if_splits)
      with Cons.prems have "us \<noteq> []" "last us = TRBrace" by (auto split: if_splits)
      with u dflt show ?thesis by blast
    qed
  next
    case (InLit acc)
    show ?thesis
    proof (cases "lower c")
      case True
      with InLit Cons.prems have "scan (InLit (acc @ [c])) s = Some ts" by simp
      then show ?thesis using Cons.IH Cons.prems(2,3) step by blast
    next
      case False
      with InLit Cons.prems obtain us l where u: "scan Default (c # s) = Some us" "ts = l # us"
        "literal acc = Some l"
        by (auto simp: scan_InLit_Cons simp del: scan.simps split: option.splits)
      with Cons.prems literal_not_brace [OF u(3)] have "us \<noteq> []" "last us = TRBrace"
        by (auto split: if_splits)
      with u dflt show ?thesis by blast
    qed
  qed
qed


lemma deliver_Inl: "deliver v st = Inl v' \<longleftrightarrow> st = [] \<and> v' = v"
  by (auto simp: deliver_def split: list.splits)

lemma deliver_Inr:
  "deliver v st = Inr (e, st') \<longleftrightarrow> (\<exists>f fs. st = f # fs \<and> e = ExpSep \<and> st' = push_value v f # fs)"
  by (auto simp: deliver_def split: list.splits)

lemma value_token_Inl:
  "value_token t st = Some (Inl v) \<Longrightarrow> st = [] \<and> (\<forall>kvs. v \<noteq> JObj kvs) \<and> (\<forall>vs. v \<noteq> JArr vs)"
  by (cases t) (auto simp: value_token_def deliver_Inl)

lemma close_array_Inl: "close_array st = Some (Inl v) \<Longrightarrow> \<exists>vs. v = JArr vs \<and> st = [FArr vs]"
  by (auto simp: close_array_def deliver_Inl split: list.splits frame.splits)

lemma close_object_Inl: "close_object st = Some (Inl v) \<Longrightarrow> \<exists>kvs k. v = JObj kvs \<and> st = [FObj kvs k]"
  by (auto simp: close_object_def deliver_Inl split: list.splits frame.splits)

lemma key_token_Inl: "key_token t st \<noteq> Some (Inl v)"
  by (auto simp: key_token_def split: token.splits list.splits frame.splits)

lemma step_Inl_object: "step e st t = Some (Inl (JObj kvs)) \<Longrightarrow> t = TRBrace"
  by (cases e)
     (auto simp: step_def key_token_Inl split: if_splits list.splits frame.splits
        dest: value_token_Inl close_array_Inl close_object_Inl)

lemma run_object_last: "run e st ts = Some (JObj kvs) \<Longrightarrow> ts \<noteq> [] \<and> last ts = TRBrace"
proof (induction ts arbitrary: e st)
  case Nil
  then show ?case by simp
next
  case (Cons t ts)
  then show ?case
    by (auto split: option.splits sum.splits if_splits dest: step_Inl_object)
qed

lemma push_value_array: "push_value v (FArr vs) = FArr (vs @ [v])"
  by (simp add: push_value_def)

lemma bottom_array_Cons: "bottom_array (f # fs) \<longleftrightarrow> (if fs = [] then \<exists>vs. f = FArr vs else bottom_array fs)"
  by (simp add: bottom_array_def)

lemma bottom_array_Nil [simp]: "\<not> bottom_array []"
  by (simp add: bottom_array_def)

lemma bottom_array_deliver:
  "bottom_array st \<Longrightarrow> deliver v st = Inr (e, st') \<Longrightarrow> bottom_array st'"
  by (auto simp: deliver_Inr bottom_array_Cons push_value_array split: if_splits)

lemma bottom_array_value_token:
  "bottom_array st \<Longrightarrow> value_token t st = Some (Inr (e, st')) \<Longrightarrow> bottom_array st'"
  by (cases t) (auto simp: value_token_def bottom_array_Cons dest: bottom_array_deliver
      simp del: not_Cons_self2)

lemma bottom_array_key_token:
  "bottom_array st \<Longrightarrow> key_token t st = Some (Inr (e, st')) \<Longrightarrow> bottom_array st'"
  by (auto simp: key_token_def bottom_array_Cons split: token.splits list.splits frame.splits if_splits)

lemma bottom_array_close_array:
  "bottom_array st \<Longrightarrow> close_array st = Some (Inr (e, st')) \<Longrightarrow> bottom_array st'"
  by (auto simp: close_array_def bottom_array_Cons deliver_Inr push_value_array
      split: list.splits frame.splits if_splits)

lemma bottom_array_close_object:
  "bottom_array st \<Longrightarrow> close_object st = Some (Inr (e, st')) \<Longrightarrow> bottom_array st'"
  by (auto simp: close_object_def bottom_array_Cons deliver_Inr push_value_array
      split: list.splits frame.splits if_splits)

lemma bottom_array_step:
  "bottom_array st \<Longrightarrow> step e st t = Some (Inr (e', st')) \<Longrightarrow> bottom_array st'"
  by (cases e)
     (auto simp: step_def split: if_splits list.splits frame.splits
        dest: bottom_array_value_token bottom_array_key_token bottom_array_close_array
          bottom_array_close_object)

lemma bottom_array_step_Inl:
  "bottom_array st \<Longrightarrow> step e st t = Some (Inl v) \<Longrightarrow> \<exists>vs. v = JArr vs"
  by (cases e)
     (auto simp: step_def key_token_Inl bottom_array_def split: if_splits list.splits frame.splits
        dest: value_token_Inl close_array_Inl close_object_Inl)

lemma run_bottom_array: "bottom_array st \<Longrightarrow> run e st ts = Some v \<Longrightarrow> \<exists>vs. v = JArr vs"
proof (induction ts arbitrary: e st)
  case Nil
  then show ?case by simp
next
  case (Cons t ts)
  then show ?case
    by (auto split: option.splits sum.splits if_splits
        dest: bottom_array_step_Inl bottom_array_step)
qed

lemma run_object_first: "run ExpValue [] ts = Some (JObj kvs) \<Longrightarrow> \<exists>ts'. ts = TLBrace # ts'"
proof (cases ts)
  case Nil
  assume "run ExpValue [] ts = Some (JObj kvs)"
  with Nil show ?thesis by simp
next
  case (Cons t ts')
  assume r: "run ExpValue [] ts = Some (JObj kvs)"
  show ?thesis
  proof (cases t)
    case TLBrack
    with r Cons have "run ExpValueOrEnd [FArr []] ts' = Some (JObj kvs)"
      by (simp add: step_def value_token_def)
    moreover have "bottom_array [FArr []]" by (simp add: bottom_array_def)
    ultimately show ?thesis using run_bottom_array by blast
  qed (use r Cons in \<open>auto simp: step_def value_token_def deliver_def split: if_splits\<close>)
qed

text \<open>A text that parses to an object is an object in braces, between white space.\<close>

lemma json_parse_object_shape:
  assumes "json_parse s = Some (JObj kvs)"
  shows "\<exists>w1 mid w2. s = w1 @ 123 # mid @ 125 # w2 \<and> list_all json_ws w1 \<and> list_all json_ws w2"
proof -
  from assms obtain ts where sc: "scan Default s = Some ts" and r: "run ExpValue [] ts = Some (JObj kvs)"
    by (auto simp: json_parse_def split: option.splits)
  from run_object_first [OF r] obtain ts' where ts: "ts = TLBrace # ts'" by blast
  from run_object_last [OF r] ts have l: "ts' \<noteq> []" "last ts' = TRBrace"
    by (auto split: if_splits)
  from scan_first_brace sc ts obtain w1 rest where
    s: "s = w1 @ 123 # rest" "list_all json_ws w1" "scan Default rest = Some ts'" by blast
  from scan_last_brace [OF s(3) l] obtain mid w2 where
    "rest = mid @ 125 # w2" "list_all json_ws w2" by blast
  with s show ?thesis by blast
qed

lemma json_parse_array: "json_parse (91 # body @ [93]) = Some v \<Longrightarrow> \<exists>vs. v = JArr vs"
proof -
  assume a: "json_parse (91 # body @ [93]) = Some v"
  have b: "begin_token 91 = Some (Some TLBrack, Default)" by (simp add: begin_token_def json_ws_def)
  from a obtain ts' where "run ExpValue [] (TLBrack # ts') = Some v"
    by (auto simp: json_parse_def b split: option.splits)
  then have "run ExpValueOrEnd [FArr []] ts' = Some v" by (simp add: step_def value_token_def)
  moreover have "bottom_array [FArr []]" by (simp add: bottom_array_def)
  ultimately show ?thesis using run_bottom_array by blast
qed


lemmas scan_eval = json_ws_def digit_def num_char_def lower_def begin_token_def emit_def literal_def
  escape_def hex_def valid_number_def valid_frac_def valid_exp_def
lemmas run_eval = step_def value_token_def key_token_def close_array_def close_object_def
  deliver_def push_value_def
lemmas string_eval = js_space_def line_terminator_def trim_def match_fence_json_def match_fence_def
  brace_match_def indexOf_def lastIndexOf_def substring_def fix_content_def match_key_def
  match_string_field_def match_array_field_def
lemmas tier_eval = strip_fences_def tier1_text_def tier2_text_def titleMatch_def problemMatch_def
  hintsMatch_def metricsMatch_def toolsMatch_def teachingMatch_def six_fields_found_def
  parse_list_def tier3_def

lemma trim_object:
  assumes "list_all json_ws w1" "list_all json_ws w2"
  shows "trim (w1 @ 123 # mid @ 125 # w2) = 123 # mid @ [125]"
proof -
  have n: "\<not> js_space 123" "\<not> js_space 125" by (simp_all add: js_space_def)
  have s1: "\<And>x. x \<in> set w1 \<Longrightarrow> js_space x" and s2: "\<And>x. x \<in> set (rev w2) \<Longrightarrow> js_space x"
    using assms by (auto simp: list_all_iff json_ws_js_space)
  have "dropWhile js_space (w1 @ 123 # mid @ 125 # w2) = dropWhile js_space (123 # mid @ 125 # w2)"
    by (rule dropWhile_append2) (rule s1)
  then have a: "dropWhile js_space (w1 @ 123 # mid @ 125 # w2) = 123 # mid @ 125 # w2"
    using n by simp
  have "dropWhile js_space (rev w2 @ 125 # rev mid @ [123]) = dropWhile js_space (125 # rev mid @ [123])"
    by (rule dropWhile_append2) (rule s2)
  then have "dropWhile js_space (rev (123 # mid @ 125 # w2)) = 125 # rev mid @ [123]"
    using n by simp
  then show ?thesis by (simp add: trim_def a)
qed

lemma brace_match_object: "brace_match (123 # mid @ [125]) = Some (123 # mid @ [125])"
  by (simp add: brace_match_def)

lemma parseGeminiJSON_tier1:
  "json_parse (tier1_text raw) = Some v \<Longrightarrow> parseGeminiJSON msg raw = Inr v"
  by (simp add: parseGeminiJSON_def)

text \<open>
  Claim C8 as stated fails: line 35 deletes every three-backtick marker of the text, also
  one inside a string of a document that has no wrapping. The document
  \<open>{"title":"a```b"}\<close> is read by the first attempt, with the title \<open>ab\<close>.
\<close>

theorem backticks_in_string_are_deleted:
  \<open>json_parse raw_backticks = Some (JObj [(str ''title'', JStr (str ''a```b''))]) \<and>
   parseGeminiJSON sample_msg raw_backticks = Inr (JObj [(str ''title'', JStr (str ''ab''))]) \<and>
   parseGeminiJSON sample_msg raw_backticks \<noteq> Inr (JObj [(str ''title'', JStr (str ''a```b''))])\<close>
proof -
  have d: \<open>json_parse raw_backticks = Some (JObj [(str ''title'', JStr (str ''a```b''))])\<close>
    by (simp add: raw_backticks_def str_def json_parse_def scan_eval run_eval)
  have t: \<open>tier1_text raw_backticks = str ''{"title":"ab"}''\<close>
    by (simp add: raw_backticks_def str_def tier_eval string_eval)
  have \<open>json_parse (str ''{"title":"ab"}'') = Some (JObj [(str ''title'', JStr (str ''ab''))])\<close>
    by (simp add: str_def json_parse_def scan_eval run_eval)
  then have p: \<open>parseGeminiJSON sample_msg raw_backticks = Inr (JObj [(str ''title'', JStr (str ''ab''))])\<close>
    by (simp add: parseGeminiJSON_tier1 t)
  have \<open>str ''ab'' \<noteq> str ''a```b''\<close> by (simp add: str_def)
  with d p show ?thesis by simp
qed

text \<open>
  Claim C8, amended: a completion text that \<open>JSON.parse\<close> reads as an object, and that
  holds no three-backtick marker anywhere (inside its strings either), is read by the first
  attempt of \<open>parseGeminiJSON\<close>, with the same result.
\<close>

theorem tier1_direct_parse:
  assumes "json_parse raw = Some (JObj kvs)" and "\<not> has_fence raw"
  shows "json_parse (tier1_text raw) = json_parse raw \<and> parseGeminiJSON msg raw = Inr (JObj kvs)"
proof -
  from json_parse_object_shape [OF assms(1)] obtain w1 mid w2 where
    raw: "raw = w1 @ 123 # mid @ 125 # w2" and w: "list_all json_ws w1" "list_all json_ws w2"
    by blast
  have "strip_fences raw = 123 # mid @ [125]"
    using gsub_del_no_fence [OF assms(2)] trim_object [OF w] by (simp add: strip_fences_def raw)
  then have t: "tier1_text raw = 123 # mid @ [125]"
    by (simp add: tier1_text_def brace_match_object)
  have "json_parse (w1 @ (123 # mid @ [125]) @ w2) = json_parse (123 # mid @ [125])"
    using w by (rule json_parse_ws)
  then have "json_parse raw = json_parse (123 # mid @ [125])" by (simp add: raw)
  then have "json_parse (tier1_text raw) = json_parse raw" by (simp only: t)
  then show ?thesis using assms(1) by (simp add: parseGeminiJSON_tier1)
qed

theorem tier1_direct_parse_witness:
  "json_parse raw_padded =
     Some (JObj [(str ''title'', JStr (str ''T'')), (str ''n'', JArr [JNum (str ''1''), JNum (str ''2'')])]) \<and>
   \<not> has_fence raw_padded \<and>
   parseGeminiJSON sample_msg raw_padded =
     Inr (JObj [(str ''title'', JStr (str ''T'')), (str ''n'', JArr [JNum (str ''1''), JNum (str ''2'')])])"
proof -
  have p: "json_parse raw_padded =
     Some (JObj [(str ''title'', JStr (str ''T'')), (str ''n'', JArr [JNum (str ''1''), JNum (str ''2'')])])"
    by (simp add: raw_padded_def str_def json_parse_def scan_eval run_eval)
  have f: "\<not> has_fence raw_padded" by (simp add: raw_padded_def str_def)
  from tier1_direct_parse [OF p f, of sample_msg] p f show ?thesis by simp
qed

section \<open>Properties of the response recovery\<close>

lemma empty_text:
  "tier1_text [] = []" "tier2_text [] = []" "json_parse [] = None" "tier3 [] = None"
  by (simp_all add: tier_eval string_eval json_parse_def)

lemma parseGeminiJSON_empty:
  "parseGeminiJSON msg [] =
     Inl (Error (str ''Failed to parse JSON: '' @ msg [] @ str ''. Check console for details.''))"
  by (simp add: parseGeminiJSON_def empty_text)

text \<open>
  Claim C10: the empty completion text, which \<open>callGemini\<close> returns for a response
  without candidates, is read by none of the three attempts of \<open>parseGeminiJSON\<close>, which
  throws; so no challenge is assembled from it.
\<close>

theorem empty_completion_fails:
  "json_parse (tier1_text []) = None \<and>
   json_parse (tier2_text (tier1_text [])) = None \<and>
   tier3 (tier2_text (tier1_text [])) = None \<and>
   parseGeminiJSON msg [] =
     Inl (Error (str ''Failed to parse JSON: '' @ msg [] @ str ''. Check console for details.'')) \<and>
   assemble msg c m dk [] =
     Inl (Error (str ''Failed to parse JSON: '' @ msg [] @ str ''. Check console for details.'')) \<and>
   (data \<noteq> JNull \<and> (js_get (str ''candidates'') data = None
                     \<or> js_get (str ''candidates'') data = Some (JArr [])) \<longrightarrow>
      response_text data = Inr (JStr []))"
  by (auto simp: empty_text parseGeminiJSON_empty assemble_def response_text_def chain_def
      js_first_def)

theorem empty_completion_fails_witness:
  "JObj [] \<noteq> JNull \<and> js_get (str ''candidates'') (JObj []) = None \<and>
   callGemini (Inr (JObj [])) = Inr (JStr []) \<and>
   fst (generate sample_msg (\<lambda>n key p. Inr (JObj [])) 1793707200000 (str ''AIkey'')
          (getTodayMeta 1793707200000 0) (DateKey 20760) 0) =
     Inl (Error (str ''Failed to parse JSON: Unexpected end of JSON input. Check console for details.''))"
proof -
  have g: "js_get (str ''candidates'') (JObj []) = None" by (simp add: js_get_def)
  have c: "cat (getTodayMeta 1793707200000 0) \<noteq> None"
    by (simp add: getTodayMeta_def getDayNumber_def start_def js_index_def js_rem_def Let_def
        CATEGORIES_def)
  from empty_completion_fails [of sample_msg "the (cat (getTodayMeta 1793707200000 0))"
      "getTodayMeta 1793707200000 0" "DateKey 20760" "JObj []"] g c
  show ?thesis
    by (auto simp: callGemini_def generate_def buildChallengePrompt_def sample_msg_def str_def)
qed


lemma raw_bad_list_texts:
  "tier1_text raw_bad_list = raw_bad_list" "tier2_text raw_bad_list = raw_bad_list"
  by (simp_all add: raw_bad_list_def str_def tier_eval string_eval)

lemma raw_bad_list_parse: "json_parse raw_bad_list = None"
  by (simp add: raw_bad_list_def str_def json_parse_def scan_eval run_eval)

lemma raw_bad_list_found: "six_fields_found raw_bad_list"
  by (simp add: raw_bad_list_def str_def tier_eval string_eval)

lemma raw_bad_list_hints: "parse_list (hintsMatch raw_bad_list) = None"
  by (simp add: raw_bad_list_def str_def tier_eval string_eval json_parse_def scan_eval run_eval)

text \<open>
  Claim C2 as stated (after two failed attempts, the third succeeds exactly when the six
  expressions match) fails: in \<open>raw_bad_list\<close> all six match, but the text between the
  brackets of \<open>hints\<close> is not a JSON list, and \<open>parseGeminiJSON\<close> throws.
\<close>

theorem six_matches_do_not_suffice:
  "json_parse (tier1_text raw_bad_list) = None \<and>
   json_parse (tier2_text (tier1_text raw_bad_list)) = None \<and>
   six_fields_found (tier2_text (tier1_text raw_bad_list)) \<and>
   tier3 (tier2_text (tier1_text raw_bad_list)) = None \<and>
   parseGeminiJSON sample_msg raw_bad_list =
     Inl (Error (str ''Failed to parse JSON: Unexpected token. Check console for details.''))"
proof -
  have m: "sample_msg raw_bad_list = str ''Unexpected token''"
    by (simp add: sample_msg_def raw_bad_list_def str_def json_ws_def)
  have t3: "tier3 raw_bad_list = None"
    by (simp add: tier3_def raw_bad_list_found raw_bad_list_hints)
  show ?thesis
    by (simp add: raw_bad_list_texts raw_bad_list_parse raw_bad_list_found t3 parseGeminiJSON_def m)
       (simp add: str_def)
qed

lemma parse_list_array: "parse_list m = Some v \<Longrightarrow> \<exists>vs. v = JArr vs"
  by (auto simp: parse_list_def split: option.splits dest: json_parse_array)

text \<open>
  Claim C2, amended: after two failed attempts, with \<open>c\<close> the text of the second
  attempt, \<open>parseGeminiJSON\<close> returns the record of the six extracted fields when the six
  expressions match in \<open>c\<close> and each of the three bracketed texts parses, as a list; in
  every other case, so whenever a field is not found, it throws the error that carries
  the message of the first \<open>JSON.parse\<close>.
\<close>

theorem tier3_recovery:
  assumes "json_parse (tier1_text raw) = None"
    and "json_parse (tier2_text (tier1_text raw)) = None"
  shows
    "(six_fields_found (tier2_text (tier1_text raw)) \<and>
      parse_list (hintsMatch (tier2_text (tier1_text raw))) \<noteq> None \<and>
      parse_list (metricsMatch (tier2_text (tier1_text raw))) \<noteq> None \<and>
      parse_list (toolsMatch (tier2_text (tier1_text raw))) \<noteq> None \<longrightarrow>
        (\<exists>hs ks ts.
           parse_list (hintsMatch (tier2_text (tier1_text raw))) = Some (JArr hs) \<and>
           parse_list (metricsMatch (tier2_text (tier1_text raw))) = Some (JArr ks) \<and>
           parse_list (toolsMatch (tier2_text (tier1_text raw))) = Some (JArr ts) \<and>
           parseGeminiJSON msg raw =
             Inr (JObj [(str ''title'', JStr (the (titleMatch (tier2_text (tier1_text raw))))),
                        (str ''problem'', JStr (the (problemMatch (tier2_text (tier1_text raw))))),
                        (str ''hints'', JArr hs),
                        (str ''keyMetrics'', JArr ks),
                        (str ''tools'', JArr ts),
                        (str ''teachingPoint'', JStr (the (teachingMatch (tier2_text (tier1_text raw)))))]))) \<and>
     (\<not> (six_fields_found (tier2_text (tier1_text raw)) \<and>
         parse_list (hintsMatch (tier2_text (tier1_text raw))) \<noteq> None \<and>
         parse_list (metricsMatch (tier2_text (tier1_text raw))) \<noteq> None \<and>
         parse_list (toolsMatch (tier2_text (tier1_text raw))) \<noteq> None) \<longrightarrow>
        parseGeminiJSON msg raw =
          Inl (Error (str ''Failed to parse JSON: '' @ msg (tier1_text raw)
                      @ str ''. Check console for details.'')))"
proof -
  let ?c = "tier2_text (tier1_text raw)"
  have p: "parseGeminiJSON msg raw =
      (case tier3 ?c of
         Some v \<Rightarrow> Inr v
       | None \<Rightarrow> Inl (Error (str ''Failed to parse JSON: '' @ msg (tier1_text raw)
                                @ str ''. Check console for details.'')))"
    using assms by (simp add: parseGeminiJSON_def Let_def)
  show ?thesis
  proof (intro conjI impI)
    assume a: "six_fields_found ?c \<and> parse_list (hintsMatch ?c) \<noteq> None \<and>
      parse_list (metricsMatch ?c) \<noteq> None \<and> parse_list (toolsMatch ?c) \<noteq> None"
    then obtain h k t where l: "parse_list (hintsMatch ?c) = Some h"
      "parse_list (metricsMatch ?c) = Some k" "parse_list (toolsMatch ?c) = Some t" by auto
    from parse_list_array [OF l(1)] obtain hs where "h = JArr hs" by blast
    moreover from parse_list_array [OF l(2)] obtain ks where "k = JArr ks" by blast
    moreover from parse_list_array [OF l(3)] obtain ts where "t = JArr ts" by blast
    ultimately have "h = JArr hs" "k = JArr ks" "t = JArr ts" by simp_all
    with l a p show "\<exists>hs ks ts.
           parse_list (hintsMatch ?c) = Some (JArr hs) \<and>
           parse_list (metricsMatch ?c) = Some (JArr ks) \<and>
           parse_list (toolsMatch ?c) = Some (JArr ts) \<and>
           parseGeminiJSON msg raw =
             Inr (JObj [(str ''title'', JStr (the (titleMatch ?c))),
                        (str ''problem'', JStr (the (problemMatch ?c))),
                        (str ''hints'', JArr hs),
                        (str ''keyMetrics'', JArr ks),
                        (str ''tools'', JArr ts),
                        (str ''teachingPoint'', JStr (the (teachingMatch ?c)))])"
      by (simp add: tier3_def)
  next
    assume "\<not> (six_fields_found ?c \<and> parse_list (hintsMatch ?c) \<noteq> None \<and>
      parse_list (metricsMatch ?c) \<noteq> None \<and> parse_list (toolsMatch ?c) \<noteq> None)"
    then have "tier3 ?c = None" by (auto simp: tier3_def split: option.splits)
    with p show "parseGeminiJSON msg raw =
          Inl (Error (str ''Failed to parse JSON: '' @ msg (tier1_text raw)
                      @ str ''. Check console for details.''))" by simp
  qed
qed

lemma raw_fields_texts:
  "tier1_text raw_fields = raw_fields" "tier2_text raw_fields = raw_fields"
  by (simp_all add: raw_fields_def str_def tier_eval string_eval)

lemma raw_fields_parse: "json_parse raw_fields = None"
  by (simp add: raw_fields_def str_def json_parse_def scan_eval run_eval)

lemma raw_fields_matches:
  "titleMatch raw_fields = Some (str ''T'')" "problemMatch raw_fields = Some (str ''P'')"
  "teachingMatch raw_fields = Some (str ''E'')" "six_fields_found raw_fields"
  by (simp_all add: raw_fields_def str_def tier_eval string_eval)

lemma raw_fields_lists:
  "parse_list (hintsMatch raw_fields) = Some (JArr [JStr (str ''a''), JStr (str ''b'')])"
  "parse_list (metricsMatch raw_fields) = Some (JArr [])"
  "parse_list (toolsMatch raw_fields) = Some (JArr [JStr (str ''x'')])"
  by (simp_all add: raw_fields_def str_def tier_eval string_eval json_parse_def scan_eval run_eval)

theorem tier3_recovery_witness:
  "json_parse (tier1_text raw_fields) = None \<and>
   json_parse (tier2_text (tier1_text raw_fields)) = None \<and>
   six_fields_found (tier2_text (tier1_text raw_fields)) \<and>
   parseGeminiJSON sample_msg raw_fields =
     Inr (JObj [(str ''title'', JStr (str ''T'')), (str ''problem'', JStr (str ''P'')),
                (str ''hints'', JArr [JStr (str ''a''), JStr (str ''b'')]),
                (str ''keyMetrics'', JArr []), (str ''tools'', JArr [JStr (str ''x'')]),
                (str ''teachingPoint'', JStr (str ''E''))])"
proof -
  have a: "json_parse (tier1_text raw_fields) = None"
    and b: "json_parse (tier2_text (tier1_text raw_fields)) = None"
    by (simp_all add: raw_fields_texts raw_fields_parse)
  from tier3_recovery [OF a b, of sample_msg] a b show ?thesis
    by (simp add: raw_fields_texts raw_fields_matches raw_fields_lists)
qed


lemma raw_numbers_parse:
  "parseGeminiJSON msg raw_numbers =
     Inr (JObj [(str ''title'', JNum (str ''1'')), (str ''problem'', JNum (str ''1'')),
                (str ''hints'', JNum (str ''1'')), (str ''keyMetrics'', JNum (str ''1'')),
                (str ''tools'', JNum (str ''1'')), (str ''teachingPoint'', JNum (str ''1''))])"
proof -
  have t: "tier1_text raw_numbers = raw_numbers"
    by (simp add: raw_numbers_def str_def tier_eval string_eval)
  have "json_parse raw_numbers =
     Some (JObj [(str ''title'', JNum (str ''1'')), (str ''problem'', JNum (str ''1'')),
                (str ''hints'', JNum (str ''1'')), (str ''keyMetrics'', JNum (str ''1'')),
                (str ''tools'', JNum (str ''1'')), (str ''teachingPoint'', JNum (str ''1''))])"
    by (simp add: raw_numbers_def str_def json_parse_def scan_eval run_eval)
  then show ?thesis by (simp add: parseGeminiJSON_tier1 t)
qed

lemma truthy_one: "truthy (JNum (str ''1''))"
  by (simp add: num_is_zero_def num_value_def str_def digit_def digits_val_def)

lemma meta_today:
  "getTodayMeta 1793707200000 0 = \<lparr>cat = Some (CATEGORIES ! 0), diff = Some Beginner, day = 672\<rparr>"
  by (simp add: getTodayMeta_def getDayNumber_def start_def js_index_def js_rem_def Let_def
      CATEGORIES_def DIFFICULTIES_def)

lemma raw_numbers_assemble:
  "assemble msg (CATEGORIES ! 0) (getTodayMeta 1793707200000 0) (DateKey 20760) raw_numbers =
     Inr \<lparr>cat = Some (CATEGORIES ! 0), diff = Some Beginner, day = 672,
          generated = [(str ''title'', JNum (str ''1'')), (str ''problem'', JNum (str ''1'')),
                       (str ''hints'', JNum (str ''1'')), (str ''keyMetrics'', JNum (str ''1'')),
                       (str ''tools'', JNum (str ''1'')), (str ''teachingPoint'', JNum (str ''1''))],
          category = str ''BTC Fundamentals'', dateKey = DateKey 20760\<rparr>"
proof -
  have r: "required_fields (JObj [(str ''title'', JNum (str ''1'')), (str ''problem'', JNum (str ''1'')),
                (str ''hints'', JNum (str ''1'')), (str ''keyMetrics'', JNum (str ''1'')),
                (str ''tools'', JNum (str ''1'')), (str ''teachingPoint'', JNum (str ''1''))])"
    using truthy_one by (simp add: required_fields_def has_field_def js_get_def str_def)
  have l: "label (CATEGORIES ! 0) = str ''BTC Fundamentals''" by (simp add: CATEGORIES_def)
  show ?thesis
    using r by (simp add: assemble_def raw_numbers_parse meta_today l)
qed

text \<open>
  Claim C3 as stated (the validation checks the shapes of the six fields, and no record
  with wrongly-shaped fields is yielded) fails: in \<open>raw_numbers\<close> every field is the
  number 1, the validation of line 382 passes, and the challenge is assembled.
\<close>

theorem assemble_accepts_wrong_shapes:
  "assemble sample_msg (CATEGORIES ! 0) (getTodayMeta 1793707200000 0) (DateKey 20760) raw_numbers =
     Inr \<lparr>cat = Some (CATEGORIES ! 0), diff = Some Beginner, day = 672,
          generated = [(str ''title'', JNum (str ''1'')), (str ''problem'', JNum (str ''1'')),
                       (str ''hints'', JNum (str ''1'')), (str ''keyMetrics'', JNum (str ''1'')),
                       (str ''tools'', JNum (str ''1'')), (str ''teachingPoint'', JNum (str ''1''))],
          category = str ''BTC Fundamentals'', dateKey = DateKey 20760\<rparr>"
  by (rule raw_numbers_assemble)

lemma required_fields_object: "required_fields parsed \<Longrightarrow> \<exists>kvs. parsed = JObj kvs"
  by (cases parsed) (simp_all add: required_fields_def has_field_def js_get_def)

lemma has_field_object:
  "has_field (JObj kvs) name \<longleftrightarrow> (\<exists>v. map_of kvs name = Some v \<and> truthy v)"
  by (simp add: has_field_def js_get_def split: option.splits)

lemma assemble_Inr:
  assumes a: "assemble msg c m dk raw = Inr full"
  shows "parseGeminiJSON msg raw = Inr (JObj (generated full)) \<and>
         required_fields (JObj (generated full)) \<and>
         cat full = cat m \<and> diff full = diff m \<and> day full = day m \<and>
         category full = label c \<and> dateKey full = dk"
proof -
  from a obtain parsed where p: "parseGeminiJSON msg raw = Inr parsed" "required_fields parsed"
    "full = \<lparr>cat = cat m, diff = diff m, day = day m,
             generated = (case parsed of JObj kvs \<Rightarrow> kvs | _ \<Rightarrow> []),
             category = label c, dateKey = dk\<rparr>"
    by (auto simp: assemble_def split: sum.splits if_splits)
  from required_fields_object [OF p(2)] obtain kvs where k: "parsed = JObj kvs" by blast
  with p show ?thesis by simp
qed

text \<open>
  Claim C3, amended: a challenge is assembled only from a parsed object in which each of
  the six required fields is present with a truthy value (the shape of the value is not
  checked); and when \<open>parseGeminiJSON\<close> returns a value other than \<open>null\<close> in which a
  required field is missing or falsy, the attempt fails with the error "Invalid
  challenge format - missing required fields".
\<close>

theorem assemble_validates:
  "(assemble msg c m dk raw = Inr full \<longrightarrow>
      parseGeminiJSON msg raw = Inr (JObj (generated full)) \<and>
      (\<forall>name \<in> {str ''title'', str ''problem'', str ''hints'', str ''keyMetrics'', str ''tools'',
                  str ''teachingPoint''}.
         \<exists>v. map_of (generated full) name = Some v \<and> truthy v)) \<and>
   (parseGeminiJSON msg raw = Inr parsed \<and> parsed \<noteq> JNull \<and> \<not> required_fields parsed \<longrightarrow>
      assemble msg c m dk raw =
        Inl (Error (str ''Invalid challenge format - missing required fields'')))"
proof -
  have A: "parseGeminiJSON msg raw = Inr (JObj (generated full)) \<and>
      (\<forall>name \<in> {str ''title'', str ''problem'', str ''hints'', str ''keyMetrics'', str ''tools'',
                  str ''teachingPoint''}.
         \<exists>v. map_of (generated full) name = Some v \<and> truthy v)"
    if a: "assemble msg c m dk raw = Inr full"
    using assemble_Inr [OF a] by (simp add: required_fields_def has_field_object)
  have B: "assemble msg c m dk raw =
        Inl (Error (str ''Invalid challenge format - missing required fields''))"
    if "parseGeminiJSON msg raw = Inr parsed \<and> parsed \<noteq> JNull \<and> \<not> required_fields parsed"
    using that by (simp add: assemble_def)
  show ?thesis using A B by blast
qed

lemma raw_title_only_parse:
  "parseGeminiJSON msg raw_title_only = Inr (JObj [(str ''title'', JStr (str ''T''))])"
proof -
  have t: "tier1_text raw_title_only = raw_title_only"
    by (simp add: raw_title_only_def str_def tier_eval string_eval)
  have "json_parse raw_title_only = Some (JObj [(str ''title'', JStr (str ''T''))])"
    by (simp add: raw_title_only_def str_def json_parse_def scan_eval run_eval)
  then show ?thesis by (simp add: parseGeminiJSON_tier1 t)
qed

theorem assemble_validates_witness:
  "parseGeminiJSON sample_msg raw_title_only = Inr (JObj [(str ''title'', JStr (str ''T''))]) \<and>
   JObj [(str ''title'', JStr (str ''T''))] \<noteq> JNull \<and>
   \<not> required_fields (JObj [(str ''title'', JStr (str ''T''))]) \<and>
   assemble sample_msg (CATEGORIES ! 0) (getTodayMeta 1793707200000 0) (DateKey 20760) raw_title_only =
     Inl (Error (str ''Invalid challenge format - missing required fields'')) \<and>
   (\<exists>full. assemble sample_msg (CATEGORIES ! 0) (getTodayMeta 1793707200000 0) (DateKey 20760)
              raw_numbers = Inr full \<and>
      map_of (generated full) (str ''title'') = Some (JNum (str ''1'')) \<and> truthy (JNum (str ''1'')))"
proof -
  have n: "\<not> required_fields (JObj [(str ''title'', JStr (str ''T''))])"
    by (simp add: required_fields_def has_field_def js_get_def str_def)
  from assemble_validates [of sample_msg "CATEGORIES ! 0" "getTodayMeta 1793707200000 0"
      "DateKey 20760" raw_title_only _ "JObj [(str ''title'', JStr (str ''T''))]"]
    raw_title_only_parse [of sample_msg] n
  have 1: "assemble sample_msg (CATEGORIES ! 0) (getTodayMeta 1793707200000 0) (DateKey 20760)
      raw_title_only = Inl (Error (str ''Invalid challenge format - missing required fields''))"
    by simp
  show ?thesis
    using 1 n raw_title_only_parse [of sample_msg] raw_numbers_assemble [of sample_msg] truthy_one
    by simp
qed

section \<open>Properties of the generation orchestrator\<close>

lemma retry_unfold:
  "retry msg svc now key m dk attempt s =
    (if attempt \<le> 3 then
       (case generate msg svc now key m dk (calls s) of
          (Inr full, n) \<Rightarrow> (saveChallenge dk full (s\<lparr>calls := n\<rparr>))\<lparr>challenge := Some full\<rparr>
        | (Inl e, n) \<Rightarrow>
            retry msg svc now key m dk (attempt + 1)
              (if attempt = 3
               then s\<lparr>calls := n,
                      genError := str ''Failed after 3 attempts: '' @ message e
                        @ str ''. Try clicking RETRY or check your API key.''\<rparr>
               else s\<lparr>calls := n\<rparr>))
     else s\<lparr>generating := False\<rparr>)"
  by (rule retry.simps)

lemma retry_4: "retry msg svc now key m dk 4 s = s\<lparr>generating := False\<rparr>"
  by (subst retry_unfold) simp

lemma retry_3:
  "retry msg svc now key m dk 3 s =
    (case generate msg svc now key m dk (calls s) of
       (Inr full, n) \<Rightarrow> (saveChallenge dk full (s\<lparr>calls := n\<rparr>))\<lparr>challenge := Some full\<rparr>
     | (Inl e, n) \<Rightarrow>
         s\<lparr>calls := n,
           genError := str ''Failed after 3 attempts: '' @ message e
             @ str ''. Try clicking RETRY or check your API key.'',
           generating := False\<rparr>)"
  by (subst retry_unfold) (simp add: retry_4 split: prod.splits sum.splits)

lemma retry_2:
  "retry msg svc now key m dk 2 s =
    (case generate msg svc now key m dk (calls s) of
       (Inr full, n) \<Rightarrow> (saveChallenge dk full (s\<lparr>calls := n\<rparr>))\<lparr>challenge := Some full\<rparr>
     | (Inl e, n) \<Rightarrow> retry msg svc now key m dk 3 (s\<lparr>calls := n\<rparr>))"
  by (subst retry_unfold) (simp split: prod.splits sum.splits)

lemma retry_1:
  "retry msg svc now key m dk 1 s =
    (case generate msg svc now key m dk (calls s) of
       (Inr full, n) \<Rightarrow> (saveChallenge dk full (s\<lparr>calls := n\<rparr>))\<lparr>challenge := Some full\<rparr>
     | (Inl e, n) \<Rightarrow> retry msg svc now key m dk 2 (s\<lparr>calls := n\<rparr>))"
  by (subst retry_unfold) (simp split: prod.splits sum.splits del: One_nat_def)

lemma retry_three_attempts:
  "retry msg svc now key m dk 1 (s\<lparr>generating := True, genError := [], challenge := None\<rparr>) =
     three_attempts (generate msg svc now key m dk) s dk"
  unfolding retry_1 retry_2 retry_3
  by (simp add: three_attempts_def succeeded_def failed_def saveChallenge_def
      split: prod.splits sum.splits)






lemma cache_miss_eq:
  "loadChallenge (challengeKey now offset) s = None \<Longrightarrow>
     loadOrGenerateChallenge msg svc now offset key s =
       three_attempts (generate msg svc now key (getTodayMeta now offset) (challengeKey now offset))
         s (challengeKey now offset)"
  by (simp add: loadOrGenerateChallenge_def Let_def retry_three_attempts del: One_nat_def)





lemma good_text_parse:
  "parseGeminiJSON msg good_text = Inr (JObj (generated good_challenge))"
proof -
  have t: "tier1_text good_text = good_text"
    by (simp add: good_text_def str_def tier_eval string_eval)
  have "json_parse good_text = Some (JObj (generated good_challenge))"
    by (simp add: good_text_def good_challenge_def str_def json_parse_def scan_eval run_eval)
  then show ?thesis by (simp add: parseGeminiJSON_tier1 t)
qed


lemma good_body_text: "response_text good_body = Inr (JStr good_text)"
proof -
  have "good_text \<noteq> []" by (simp add: good_text_def str_def)
  then show ?thesis
    by (simp add: response_text_def good_body_def chain_def js_get_def js_first_def str_def)
qed

lemma empty_body_text: "response_text (JObj []) = Inr (JStr [])"
  by (simp add: response_text_def chain_def js_get_def)




lemma failing_generate:
  "generate sample_msg failing_service 1793707200000 key (getTodayMeta 1793707200000 0) (DateKey 20760) 0 =
     (Inl (Error (str ''Gemini API error 503'')), 1)"
  "generate sample_msg failing_service 1793707200000 key (getTodayMeta 1793707200000 0) (DateKey 20760) 1 =
     (Inl (Error (str ''Gemini API error 503'')), 2)"
  "generate sample_msg failing_service 1793707200000 key (getTodayMeta 1793707200000 0) (DateKey 20760) 2 =
     (Inl (Error (str ''Failed to parse JSON: Unexpected end of JSON input. Check console for details.'')), 3)"
proof -
  have m: "cat (getTodayMeta 1793707200000 0) = Some (CATEGORIES ! 0)"
    by (simp add: meta_today)
  show "generate sample_msg failing_service 1793707200000 key (getTodayMeta 1793707200000 0) (DateKey 20760) 0 =
     (Inl (Error (str ''Gemini API error 503'')), 1)"
    by (simp add: generate_def buildChallengePrompt_def m failing_service_def callGemini_def)
  show "generate sample_msg failing_service 1793707200000 key (getTodayMeta 1793707200000 0) (DateKey 20760) 1 =
     (Inl (Error (str ''Gemini API error 503'')), 2)"
    by (simp add: generate_def buildChallengePrompt_def m failing_service_def callGemini_def)
  show "generate sample_msg failing_service 1793707200000 key (getTodayMeta 1793707200000 0) (DateKey 20760) 2 =
     (Inl (Error (str ''Failed to parse JSON: Unexpected end of JSON input. Check console for details.'')), 3)"
    by (simp add: generate_def buildChallengePrompt_def m failing_service_def callGemini_def
        empty_body_text assemble_def parseGeminiJSON_empty sample_msg_def)
       (simp add: str_def)
qed

text \<open>Three failures: the error text carries the third message, and nothing is written.\<close>

lemma three_failures_example:
  "three_attempts (generate sample_msg failing_service 1793707200000 (str ''AIkey'')
      (getTodayMeta 1793707200000 0) (DateKey 20760)) empty_state (DateKey 20760) =
   empty_state\<lparr>calls := 3,
     genError := str ''Failed after 3 attempts: Failed to parse JSON: Unexpected end of JSON input. Check console for details.. Try clicking RETRY or check your API key.''\<rparr>"
  by (simp add: three_attempts_def failing_generate empty_state_def failed_def del: One_nat_def)
     (simp add: str_def)








text \<open>
  A negative day index: 679 days back from 2026-11-03 the day index is -7, the category
  is the first one and the difficulty is \<open>undefined\<close>
  (\<open>Math.floor(-7 / 7) % 3 = -1\<close>). The record is validated, set and stored without
  a difficulty.
\<close>

lemma record_without_difficulty:
  "getTodayMeta 1793707200000 (- 679) = \<lparr>cat = Some (CATEGORIES ! 0), diff = None, day = - 7\<rparr> \<and>
   loadOrGenerateChallenge sample_msg good_service 1793707200000 (- 679) (str ''AIkey'') empty_state =
     empty_state\<lparr>challenge := Some (good_challenge\<lparr>diff := None, day := - 7, dateKey := OffsetKey (- 7)\<rparr>),
       generating := True,
       cache := [OffsetKey (- 7) \<mapsto> good_challenge\<lparr>diff := None, day := - 7, dateKey := OffsetKey (- 7)\<rparr>],
       calls := 1, writes := 1\<rparr>"
proof -
  let ?full = "good_challenge\<lparr>diff := None, day := - 7, dateKey := OffsetKey (- 7)\<rparr>"
  have mt: "getTodayMeta 1793707200000 (- 679) = \<lparr>cat = Some (CATEGORIES ! 0), diff = None, day = - 7\<rparr>"
    by (simp add: getTodayMeta_def getDayNumber_def start_def js_index_def js_rem_def Let_def
        CATEGORIES_def DIFFICULTIES_def)
  have k: "challengeKey 1793707200000 (- 679) = OffsetKey (- 7)"
    by (simp add: challengeKey_def getDayNumber_def start_def)
  have h: "loadChallenge (challengeKey 1793707200000 (- 679)) empty_state = None"
    by (simp add: loadChallenge_def empty_state_def)
  have c: "calls empty_state = 0" by (simp add: empty_state_def)
  have r: "required_fields (JObj (generated good_challenge))"
    by (simp add: required_fields_def has_field_def js_get_def str_def good_challenge_def)
  have l: "label (CATEGORIES ! 0) = str ''BTC Fundamentals''" by (simp add: CATEGORIES_def)
  have a: "assemble sample_msg (CATEGORIES ! 0) \<lparr>cat = Some (CATEGORIES ! 0), diff = None, day = - 7\<rparr>
      (OffsetKey (- 7)) good_text = Inr ?full"
    using r by (simp add: assemble_def good_text_parse l) (simp add: good_challenge_def)
  have g: "generate sample_msg good_service 1793707200000 (str ''AIkey'')
      (getTodayMeta 1793707200000 (- 679)) (OffsetKey (- 7)) 0 = (Inr ?full, 1)"
    unfolding mt
    by (simp add: generate_def buildChallengePrompt_def good_service_def callGemini_def
        good_body_text a)
  have p: "persisted ?full = ?full"
    by (simp add: persisted_def good_challenge_def)
  have "loadOrGenerateChallenge sample_msg good_service 1793707200000 (- 679) (str ''AIkey'') empty_state =
      succeeded empty_state (OffsetKey (- 7)) ?full 1"
    unfolding cache_miss_eq [OF h] k three_attempts_def c
    by (simp add: g)
  then show ?thesis
    using mt by (simp add: succeeded_def p empty_state_def)
qed

end
